theory Spec2Isabelle
  imports Main "HOL-Library.Multiset" "HOL-Library.Option_ord"
begin

section \<open>Data model (shared/schema.ts)\<close>

text \<open>
  Every table of the schema is a record, one field per column, prefixed by the table
  (\<open>app_\<close>, \<open>lim_\<close>, \<open>prog_\<close>, \<open>usr_\<close>, \<open>doc_\<close>, \<open>ev_\<close>) because the tables share
  column names. A column's type is what the database column holds: \<open>integer\<close> and
  \<open>serial\<close> are \<open>int\<close>, \<open>text\<close> is \<open>string\<close> (the \<open>enum\<close> option of a text column
  constrains the TypeScript type only, the column stores any text), \<open>timestamp\<close> is
  milliseconds as \<open>int\<close>; a column without \<open>notNull\<close> is an \<open>option\<close>, \<open>None\<close> being
  SQL NULL.
\<close>

type_synonym timestamp = int

record user =
  usr_id :: int
  usr_email :: string
  usr_passwordHash :: string
  usr_role :: string
  usr_createdAt :: "timestamp option"

record program =
  prog_id :: int
  prog_name :: string
  prog_regionLabel :: string
  prog_effectiveStart :: timestamp
  prog_effectiveEnd :: "timestamp option"
  prog_createdAt :: "timestamp option"

record incomeLimit =
  lim_id :: int
  lim_programId :: int
  lim_householdSize :: int
  lim_limitCents :: int
  lim_versionLabel :: string
  lim_createdAt :: "timestamp option"

record application =
  app_id :: int
  app_programId :: int
  app_applicantName :: string
  app_applicantEmail :: string
  app_applicantPhone :: "string option"
  app_applicantToken :: string
  app_addressLine1 :: "string option"
  app_city :: "string option"
  app_state :: "string option"
  app_zip :: "string option"
  app_householdSize :: "int option"
  app_annualIncomeCents :: "int option"
  app_computedLimitCents :: "int option"
  app_systemResult :: "string option"
  app_ruleVersion :: "string option"
  app_status :: string
  app_submittedAt :: "timestamp option"
  app_reviewedBy :: "int option"
  app_createdAt :: "timestamp option"
  app_updatedAt :: "timestamp option"

record document =
  doc_id :: int
  doc_applicationId :: int
  doc_filename :: string
  doc_path :: string
  doc_mimeType :: string
  doc_sizeBytes :: int
  doc_uploadedAt :: "timestamp option"

record activityEvent =
  ev_id :: int
  ev_applicationId :: int
  ev_type :: string
  ev_message :: string
  ev_createdByUserId :: "int option"
  ev_createdAt :: "timestamp option"

text \<open>The enums of the schema, as the lists of strings they are.\<close>

definition applicationStatuses :: "string list" where
  "applicationStatuses = [''Draft'', ''Submitted'', ''NeedsInfo'', ''Approved'', ''Denied'']"

definition systemResults :: "string list" where
  "systemResults = [''Eligible'', ''NotEligible'', ''NeedsReview'']"

definition activityTypes :: "string list" where
  "activityTypes = [''Note'', ''System'', ''RequestInfo'', ''StatusChange'']"

text \<open>
  The database: the six tables in row order, and the sequences behind the \<open>serial\<close>
  columns that the modelled operations insert into.
\<close>

record db =
  users :: "user list"
  programs :: "program list"
  incomeLimits :: "incomeLimit list"
  applications :: "application list"
  documents :: "document list"
  activityEvents :: "activityEvent list"
  programs_id_seq :: int
  income_limits_id_seq :: int
  applications_id_seq :: int
  activity_events_id_seq :: int


text \<open>
  A JavaScript number, as far as the handlers tell numbers apart: \<open>NaN\<close>, an integer,
  or a number that is no integer (a fraction or an infinity). A request value is a
  JSON value; a key that the request does not have (\<open>undefined\<close>) is \<open>None\<close> of a
  \<open>json option\<close>.
\<close>

datatype number = NaN | Num int | NonInteger

datatype json =
    JNull
  | JBool bool
  | JNum number
  | JStr string
  | JArr "json list"
  | JObj "(string \<times> json) list"

text \<open>
  What a handler does to the request: \<open>res.sendStatus\<close>, \<open>res.status(c).json(v)\<close>
  (\<open>JsonMessage\<close> when \<open>v\<close> is an object with only a \<open>message\<close>), \<open>res.send\<close> of a
  text body, or a rejected promise. A promise is rejected by a schema that throws
  (\<open>ZodError\<close>), by a JavaScript \<open>TypeError\<close> (drizzle encoding a timestamp that is
  no \<open>Date\<close>, a property read of \<open>undefined\<close>), and by PostgreSQL refusing a
  parameter value (\<open>DataException\<close>: text that is no 32-bit integer where one is
  wanted, text with a NUL character), a NULL in a \<open>notNull\<close> column or a duplicate
  key.
\<close>

datatype error = ZodError | TypeError | DataException | NotNullViolation | UniqueViolation

datatype 'a response =
    SendStatus nat
  | Json nat 'a
  | JsonMessage nat string
  | Send string
  | Throws error

text \<open>
  What the handlers take from the JavaScript runtime, zod and the PostgreSQL driver
  without the repository saying what it is: \<open>Number(v)\<close> and \<open>String(v)\<close> on the
  values for which the definitions below do not spell them out, zod's email test, the
  text the driver sends for a value that is no string, PostgreSQL's reading of a text
  as a 32-bit integer, and the two formatters of the CSV export.
\<close>

record runtime =
  toNumber :: "json \<Rightarrow> number"
  toString :: "json \<Rightarrow> string"
  isEmail :: "string \<Rightarrow> bool"
  pgText :: "json \<Rightarrow> string"
  int4in :: "string \<Rightarrow> int option"
  toFixed2 :: "int \<Rightarrow> string"
  toISOString :: "timestamp \<Rightarrow> string"

text \<open>
  The session: passport sets \<open>req.user\<close> from the session, and
  \<open>req.isAuthenticated()\<close> is true exactly when it is set.
\<close>

record request =
  req_user :: "user option"

definition isAuthenticated :: "request \<Rightarrow> bool" where
  "isAuthenticated req = (req_user req \<noteq> None)"

section \<open>Storage (DatabaseStorage)\<close>

text \<open>
  \<open>const [row] = await db.select()...\<close> is the first row of the result, or
  \<open>undefined\<close>: \<open>find\<close> on the table.
\<close>

definition getUser :: "db \<Rightarrow> int \<Rightarrow> user option" where
  "getUser st i = find (\<lambda>u. usr_id u = i) (users st)"

definition getProgram :: "db \<Rightarrow> int \<Rightarrow> program option" where
  "getProgram st i = find (\<lambda>p. prog_id p = i) (programs st)"

definition getIncomeLimitForHousehold :: "db \<Rightarrow> int \<Rightarrow> int \<Rightarrow> incomeLimit option" where
  "getIncomeLimitForHousehold st programId size' =
     find (\<lambda>l. lim_programId l = programId \<and> lim_householdSize l = size') (incomeLimits st)"

definition getApplicationByToken :: "db \<Rightarrow> string \<Rightarrow> application option" where
  "getApplicationByToken st token = find (\<lambda>a. app_applicantToken a = token) (applications st)"

definition getApplication :: "db \<Rightarrow> int \<Rightarrow> application option" where
  "getApplication st i = find (\<lambda>a. app_id a = i) (applications st)"

definition getDocuments :: "db \<Rightarrow> int \<Rightarrow> document list" where
  "getDocuments st applicationId = filter (\<lambda>d. doc_applicationId d = applicationId) (documents st)"

text \<open>
  \<open>orderBy(desc(column))\<close>: descending, and PostgreSQL puts NULL first in a descending
  order. The sort key below is ascending exactly then (\<open>None\<close> is the least option).
  Rows with equal keys come in an order the database does not fix; the model keeps
  table order.
\<close>

definition descKey :: "timestamp option \<Rightarrow> int option" where
  "descKey t = map_option uminus t"

definition getActivityEvents :: "db \<Rightarrow> int \<Rightarrow> activityEvent list" where
  "getActivityEvents st applicationId =
     sort_key (\<lambda>e. descKey (ev_createdAt e))
       (filter (\<lambda>e. ev_applicationId e = applicationId) (activityEvents st))"

subsection \<open>updateApplication\<close>

text \<open>
  \<open>Partial<Application>\<close>: every column may be absent (\<open>None\<close>: the column keeps its
  value, drizzle skips \<open>undefined\<close>) or present with a value of the column's type.
\<close>

record application_updates =
  u_id :: "int option"
  u_programId :: "int option"
  u_applicantName :: "string option"
  u_applicantEmail :: "string option"
  u_applicantPhone :: "string option option"
  u_applicantToken :: "string option"
  u_addressLine1 :: "string option option"
  u_city :: "string option option"
  u_state :: "string option option"
  u_zip :: "string option option"
  u_householdSize :: "int option option"
  u_annualIncomeCents :: "int option option"
  u_computedLimitCents :: "int option option"
  u_systemResult :: "string option option"
  u_ruleVersion :: "string option option"
  u_status :: "string option"
  u_submittedAt :: "timestamp option option"
  u_reviewedBy :: "int option option"
  u_createdAt :: "timestamp option option"
  u_updatedAt :: "timestamp option option"

definition no_updates :: application_updates where
  "no_updates = \<lparr> u_id = None, u_programId = None, u_applicantName = None,
     u_applicantEmail = None, u_applicantPhone = None, u_applicantToken = None,
     u_addressLine1 = None, u_city = None, u_state = None, u_zip = None,
     u_householdSize = None, u_annualIncomeCents = None, u_computedLimitCents = None,
     u_systemResult = None, u_ruleVersion = None, u_status = None, u_submittedAt = None,
     u_reviewedBy = None, u_createdAt = None, u_updatedAt = None \<rparr>"

definition setCol :: "'a option \<Rightarrow> 'a \<Rightarrow> 'a" where
  "setCol u old = (case u of None \<Rightarrow> old | Some v \<Rightarrow> v)"

definition applySet :: "application_updates \<Rightarrow> application \<Rightarrow> application" where
  "applySet u a = \<lparr>
     app_id = setCol (u_id u) (app_id a),
     app_programId = setCol (u_programId u) (app_programId a),
     app_applicantName = setCol (u_applicantName u) (app_applicantName a),
     app_applicantEmail = setCol (u_applicantEmail u) (app_applicantEmail a),
     app_applicantPhone = setCol (u_applicantPhone u) (app_applicantPhone a),
     app_applicantToken = setCol (u_applicantToken u) (app_applicantToken a),
     app_addressLine1 = setCol (u_addressLine1 u) (app_addressLine1 a),
     app_city = setCol (u_city u) (app_city a),
     app_state = setCol (u_state u) (app_state a),
     app_zip = setCol (u_zip u) (app_zip a),
     app_householdSize = setCol (u_householdSize u) (app_householdSize a),
     app_annualIncomeCents = setCol (u_annualIncomeCents u) (app_annualIncomeCents a),
     app_computedLimitCents = setCol (u_computedLimitCents u) (app_computedLimitCents a),
     app_systemResult = setCol (u_systemResult u) (app_systemResult a),
     app_ruleVersion = setCol (u_ruleVersion u) (app_ruleVersion a),
     app_status = setCol (u_status u) (app_status a),
     app_submittedAt = setCol (u_submittedAt u) (app_submittedAt a),
     app_reviewedBy = setCol (u_reviewedBy u) (app_reviewedBy a),
     app_createdAt = setCol (u_createdAt u) (app_createdAt a),
     app_updatedAt = setCol (u_updatedAt u) (app_updatedAt a) \<rparr>"

text \<open>
  The schema declares \<open>id\<close> the primary key and \<open>applicant_token\<close> unique: a statement
  that would leave two rows with one id or one token is refused and changes nothing.
\<close>

definition uniqueKeys :: "application list \<Rightarrow> bool" where
  "uniqueKeys rows \<longleftrightarrow> distinct (map app_id rows) \<and> distinct (map app_applicantToken rows)"

text \<open>
  \<open>db.update(applications).set({...updates, updatedAt: new Date()})
     .where(eq(applications.id, id)).returning()\<close>, of which the first row is returned
  (\<open>undefined\<close> when no row has the id). \<open>now\<close> is the value of \<open>new Date()\<close>.
\<close>

definition updateApplication ::
  "db \<Rightarrow> timestamp \<Rightarrow> int \<Rightarrow> application_updates \<Rightarrow> error + (db \<times> application option)" where
  "updateApplication st now i updates =
     (let set' = updates\<lparr>u_updatedAt := Some (Some now)\<rparr>;
          rows = map (\<lambda>a. if app_id a = i then applySet set' a else a) (applications st)
      in if uniqueKeys rows
         then Inr (st\<lparr>applications := rows\<rparr>,
                   map_option (applySet set') (find (\<lambda>a. app_id a = i) (applications st)))
         else Inl UniqueViolation)"

subsection \<open>createActivityEvent\<close>

record activityEvent_insert =
  i_applicationId :: int
  i_type :: string
  i_message :: string
  i_createdByUserId :: "int option"

text \<open>
  \<open>db.insert(activityEvents).values(event).returning()\<close>: the id is the next value of
  the sequence and \<open>created_at\<close> defaults to \<open>now\<close>. Event ids are written by this
  insert only, so the primary key never refuses it.
\<close>

definition createActivityEvent ::
  "db \<Rightarrow> timestamp \<Rightarrow> activityEvent_insert \<Rightarrow> db \<times> activityEvent" where
  "createActivityEvent st now event =
     (let newEvent = \<lparr> ev_id = activity_events_id_seq st,
            ev_applicationId = i_applicationId event,
            ev_type = i_type event,
            ev_message = i_message event,
            ev_createdByUserId = i_createdByUserId event,
            ev_createdAt = Some now \<rparr>
      in (st\<lparr>activityEvents := activityEvents st @ [newEvent],
              activity_events_id_seq := activity_events_id_seq st + 1\<rparr>, newEvent))"

section \<open>Submission by token (server/routes.ts, submitByToken)\<close>

text \<open>
  The block under \<open>// Calculate Eligibility\<close>: the triple
  \<open>(result, computedLimitCents, ruleVersion)\<close> as it stands after the block. The guard
  \<open>app.householdSize && app.annualIncomeCents !== null\<close> tests the household size for
  truthiness (\<open>null\<close> and \<open>0\<close> are falsy) and the income for \<open>null\<close> only.
\<close>

definition calculateEligibility :: "db \<Rightarrow> application \<Rightarrow> string \<times> int option \<times> string option" where
  "calculateEligibility st app =
     (case app_householdSize app of
        None \<Rightarrow> (''NeedsReview'', None, None)
      | Some householdSize \<Rightarrow>
          if householdSize = 0 then (''NeedsReview'', None, None)
          else
            (case app_annualIncomeCents app of
               None \<Rightarrow> (''NeedsReview'', None, None)
             | Some annualIncomeCents \<Rightarrow>
                 (case getIncomeLimitForHousehold st (app_programId app) householdSize of
                    None \<Rightarrow> (''NeedsReview'', None, None)
                  | Some limit \<Rightarrow>
                      (if annualIncomeCents \<le> lim_limitCents limit
                       then ''Eligible'' else ''NotEligible'',
                       Some (lim_limitCents limit), Some (lim_versionLabel limit)))))"

text \<open>
  The handler. \<open>tSubmit\<close> is the handler's \<open>new Date()\<close>, \<open>tUpdate\<close> the one inside
  \<open>updateApplication\<close>, \<open>tEvent\<close> the \<open>created_at\<close> default of the event.
\<close>

definition applications_submitByToken ::
  "db \<Rightarrow> timestamp \<Rightarrow> timestamp \<Rightarrow> timestamp \<Rightarrow> string \<Rightarrow> db \<times> application option response" where
  "applications_submitByToken st tSubmit tUpdate tEvent token =
     (case getApplicationByToken st token of
        None \<Rightarrow> (st, SendStatus 404)
      | Some app \<Rightarrow>
          (case calculateEligibility st app of (result, computedLimitCents, ruleVersion) \<Rightarrow>
             (case updateApplication st tUpdate (app_id app)
                     (no_updates\<lparr> u_status := Some ''Submitted'',
                        u_submittedAt := Some (Some tSubmit),
                        u_systemResult := Some (Some result),
                        u_computedLimitCents := Some computedLimitCents,
                        u_ruleVersion := Some ruleVersion \<rparr>) of
                Inl e \<Rightarrow> (st, Throws e)
              | Inr (st1, updated) \<Rightarrow>
                  (case createActivityEvent st1 tEvent
                          \<lparr> i_applicationId = app_id app,
                            i_type = ''System'',
                            i_message = ''Application submitted. System calculation: '' @ result,
                            i_createdByUserId = None \<rparr> of
                     (st2, ev) \<Rightarrow> (st2, Json 200 updated)))))"


section \<open>Request values on their way to the database\<close>

text \<open>
  A value that a handler takes from the request reaches the database as a statement
  parameter. An \<open>integer\<close> column or comparison takes a number only if it is an integer
  of 32 bits, and a string only if PostgreSQL reads it as one; a \<open>text\<close> parameter
  must not hold a NUL character; for a \<open>timestamp\<close> column drizzle calls
  \<open>toISOString\<close> on the value, which no JSON value has. The values that the server
  reads from the database or builds itself are of the column's type already.
\<close>

definition int4 :: "int \<Rightarrow> bool" where
  "int4 n \<longleftrightarrow> - 2147483648 \<le> n \<and> n \<le> 2147483647"

definition numberParam :: "number \<Rightarrow> error + int" where
  "numberParam n =
     (case n of
        Num i \<Rightarrow> if int4 i then Inr i else Inl DataException
      | _ \<Rightarrow> Inl DataException)"

definition stringParam :: "string \<Rightarrow> error + string" where
  "stringParam s = (if CHR 0x00 \<in> set s then Inl DataException else Inr s)"

definition textParam :: "runtime \<Rightarrow> json \<Rightarrow> error + string" where
  "textParam rt v = stringParam (case v of JStr s \<Rightarrow> s | _ \<Rightarrow> pgText rt v)"

definition integerParam :: "runtime \<Rightarrow> json \<Rightarrow> error + int" where
  "integerParam rt v =
     (case v of
        JNum n \<Rightarrow> numberParam n
      | JStr s \<Rightarrow> (case int4in rt s of None \<Rightarrow> Inl DataException | Some i \<Rightarrow> Inr i)
      | _ \<Rightarrow> Inl DataException)"

definition timestampParam :: "json \<Rightarrow> error + timestamp" where
  "timestampParam v = Inl TypeError"

text \<open>
  A column of a \<open>set\<close> or \<open>values\<close> object: an absent key writes nothing, \<open>null\<close> writes
  NULL, which a \<open>notNull\<close> column refuses, any other value goes through the
  parameter encoding of the column's type.
\<close>

definition notNull :: "(json \<Rightarrow> error + 'a) \<Rightarrow> json option \<Rightarrow> error + 'a option" where
  "notNull param v =
     (case v of
        None \<Rightarrow> Inr None
      | Some JNull \<Rightarrow> Inl NotNullViolation
      | Some j \<Rightarrow> (case param j of Inl e \<Rightarrow> Inl e | Inr x \<Rightarrow> Inr (Some x)))"

definition nullable :: "(json \<Rightarrow> error + 'a) \<Rightarrow> json option \<Rightarrow> error + 'a option option" where
  "nullable param v =
     (case v of
        None \<Rightarrow> Inr None
      | Some JNull \<Rightarrow> Inr (Some None)
      | Some j \<Rightarrow> (case param j of Inl e \<Rightarrow> Inl e | Inr x \<Rightarrow> Inr (Some (Some x))))"

text \<open>
  When several values of one statement are refused, the error that the handler sees is
  the earliest: drizzle's \<open>TypeError\<close> while the statement is built, then PostgreSQL's
  refusal of a parameter when the statement is bound, then the \<open>notNull\<close> check when
  it runs (and after that the check of unique keys).
\<close>

definition refusals :: "error + 'a \<Rightarrow> error list" where
  "refusals r = (case r of Inl e \<Rightarrow> [e] | Inr _ \<Rightarrow> [])"

definition firstRefusal :: "error list \<Rightarrow> error option" where
  "firstRefusal es =
     (if TypeError \<in> set es then Some TypeError
      else if DataException \<in> set es then Some DataException
      else if NotNullViolation \<in> set es then Some NotNullViolation
      else None)"

definition accepted :: "error + 'a option \<Rightarrow> 'a option" where
  "accepted r = (case r of Inl _ \<Rightarrow> None | Inr v \<Rightarrow> v)"

section \<open>Starting an application (start)\<close>

text \<open>
  \<open>Number(v)\<close> on a request value. On a string, an array or an object it is the
  runtime's conversion \<open>toNumber\<close>.
\<close>

definition Number :: "runtime \<Rightarrow> json option \<Rightarrow> number" where
  "Number rt v =
     (case v of
        None \<Rightarrow> NaN
      | Some JNull \<Rightarrow> Num 0
      | Some (JBool b) \<Rightarrow> Num (if b then 1 else 0)
      | Some (JNum n) \<Rightarrow> n
      | Some j \<Rightarrow> toNumber rt j)"

record start_body =
  b_programId :: "json option"
  b_applicantName :: "json option"
  b_applicantEmail :: "json option"

record start_input =
  in_programId :: number
  in_applicantName :: string
  in_applicantEmail :: string

text \<open>
  \<open>startApplicationSchema.parse\<close>: \<open>z.coerce.number()\<close> applies \<open>Number\<close> and refuses
  only \<open>NaN\<close>; \<open>z.string().min(1)\<close> wants a string of length at least 1;
  \<open>z.string().email()\<close> wants a string that the library's email test accepts.
  \<open>None\<close> is the thrown \<open>ZodError\<close>.
\<close>

definition startApplicationSchema :: "runtime \<Rightarrow> start_body \<Rightarrow> start_input option" where
  "startApplicationSchema rt body =
     (let programId = Number rt (b_programId body)
      in if programId = NaN then None
         else
           (case b_applicantName body of
              Some (JStr applicantName) \<Rightarrow>
                if 1 \<le> length applicantName
                then (case b_applicantEmail body of
                        Some (JStr applicantEmail) \<Rightarrow>
                          if isEmail rt applicantEmail
                          then Some \<lparr> in_programId = programId,
                                      in_applicantName = applicantName,
                                      in_applicantEmail = applicantEmail \<rparr>
                          else None
                      | _ \<Rightarrow> None)
                else None
            | _ \<Rightarrow> None))"

record application_insert =
  ia_programId :: number
  ia_applicantName :: string
  ia_applicantEmail :: string
  ia_applicantToken :: string
  ia_status :: string
  ia_systemResult :: "string option"

text \<open>
  \<open>db.insert(applications).values(app).returning()\<close> on the six columns the start
  handler gives. PostgreSQL refuses the statement when the program id is no integer
  of 32 bits or a text holds a NUL character. Otherwise the id is the next value of
  the sequence (consumed even when the row is refused), \<open>created_at\<close> and
  \<open>updated_at\<close> default to \<open>now\<close>, the other columns to NULL, and the row is refused
  when its id or token is taken.
\<close>

definition createApplication ::
  "db \<Rightarrow> timestamp \<Rightarrow> application_insert \<Rightarrow> db \<times> (error + application)" where
  "createApplication st now app =
     (case firstRefusal
             (refusals (numberParam (ia_programId app))
              @ refusals (stringParam (ia_applicantName app))
              @ refusals (stringParam (ia_applicantEmail app))
              @ refusals (stringParam (ia_applicantToken app))
              @ refusals (stringParam (ia_status app))
              @ (case ia_systemResult app of
                   None \<Rightarrow> []
                 | Some r \<Rightarrow> refusals (stringParam r))) of
        Some e \<Rightarrow> (st, Inl e)
      | None \<Rightarrow>
          (let newApp = \<lparr> app_id = applications_id_seq st,
                 app_programId = (case ia_programId app of Num i \<Rightarrow> i | _ \<Rightarrow> 0),
                 app_applicantName = ia_applicantName app,
                 app_applicantEmail = ia_applicantEmail app,
                 app_applicantPhone = None,
                 app_applicantToken = ia_applicantToken app,
                 app_addressLine1 = None, app_city = None, app_state = None, app_zip = None,
                 app_householdSize = None, app_annualIncomeCents = None,
                 app_computedLimitCents = None,
                 app_systemResult = ia_systemResult app,
                 app_ruleVersion = None,
                 app_status = ia_status app,
                 app_submittedAt = None, app_reviewedBy = None,
                 app_createdAt = Some now, app_updatedAt = Some now \<rparr>;
               st1 = st\<lparr>applications_id_seq := applications_id_seq st + 1\<rparr>
           in if uniqueKeys (applications st @ [newApp])
              then (st1\<lparr>applications := applications st @ [newApp]\<rparr>, Inr newApp)
              else (st1, Inl UniqueViolation)))"

text \<open>
  The handler. \<open>token\<close> is the value of \<open>randomBytes(16).toString("hex")\<close>, drawn
  before the body is parsed. The console log of the link is no database effect.
\<close>

definition applications_start ::
  "runtime \<Rightarrow> db \<Rightarrow> string \<Rightarrow> timestamp \<Rightarrow> start_body \<Rightarrow> db \<times> (string \<times> int) response" where
  "applications_start rt st token now body =
     (case startApplicationSchema rt body of
        None \<Rightarrow> (st, Throws ZodError)
      | Some input \<Rightarrow>
          (case createApplication st now
                  \<lparr> ia_programId = in_programId input,
                    ia_applicantName = in_applicantName input,
                    ia_applicantEmail = in_applicantEmail input,
                    ia_applicantToken = token,
                    ia_status = ''Draft'',
                    ia_systemResult = Some ''NeedsReview'' \<rparr> of
             (st1, Inl e) \<Rightarrow> (st1, Throws e)
           | (st1, Inr app) \<Rightarrow> (st1, Json 201 (token, app_id app))))"

section \<open>Updating by token (updateByToken)\<close>





section \<open>Listing (getApplications, list)\<close>

text \<open>
  SQL \<open>LIKE\<close>, text first and pattern second, a string being its characters: \<open>%\<close>
  stands for any run of characters, \<open>_\<close> for any one character, a backslash takes the
  next pattern character literally, every other character stands for itself. A
  pattern that ends in a lone backslash is an error in PostgreSQL; the patterns built
  below end in \<open>%\<close>.
\<close>

fun like :: "string \<Rightarrow> string \<Rightarrow> bool" where
  "like [] [] = True"
| "like (c # cs) [] = False"
| "like [] (p # ps) = (p = CHR ''%'' \<and> like [] ps)"
| "like (c # cs) (p # ps) =
     (if p = CHR ''%'' then like (c # cs) ps \<or> like cs (p # ps)
      else if p = CHR ''_'' then like cs ps
      else if p = CHR 0x5C
           then (case ps of [] \<Rightarrow> False | q # qs \<Rightarrow> c = q \<and> like cs qs)
      else c = p \<and> like cs ps)"

text \<open>
  The conditions of drizzle: a test of the row, or the refusal of its parameter when
  the query runs.
\<close>

definition eq_text :: "(application \<Rightarrow> string) \<Rightarrow> string \<Rightarrow> error + (application \<Rightarrow> bool)" where
  "eq_text column s =
     (case stringParam s of Inl e \<Rightarrow> Inl e | Inr s' \<Rightarrow> Inr (\<lambda>a. column a = s'))"

definition eq_integer :: "(application \<Rightarrow> int) \<Rightarrow> number \<Rightarrow> error + (application \<Rightarrow> bool)" where
  "eq_integer column n =
     (case numberParam n of Inl e \<Rightarrow> Inl e | Inr i \<Rightarrow> Inr (\<lambda>a. column a = i))"

definition like_text :: "(application \<Rightarrow> string) \<Rightarrow> string \<Rightarrow> error + (application \<Rightarrow> bool)" where
  "like_text column pattern =
     (case stringParam pattern of Inl e \<Rightarrow> Inl e | Inr p \<Rightarrow> Inr (\<lambda>a. like (column a) p))"

definition holds :: "error + (application \<Rightarrow> bool) \<Rightarrow> application \<Rightarrow> bool" where
  "holds c a = (case c of Inl _ \<Rightarrow> True | Inr test \<Rightarrow> test a)"

record filters =
  f_status :: "string option"
  f_programId :: "number option"
  f_search :: "string option"

text \<open>
  \<open>getApplications(filters?)\<close>. Each \<open>if (filters?.x)\<close> tests truthiness: an absent
  filter, the empty string, \<open>0\<close> and \<open>NaN\<close> add no condition. The conditions are joined
  by \<open>and\<close>; without conditions there is no \<open>where\<close>. The query fails when a parameter
  is refused.
\<close>

definition getApplications :: "db \<Rightarrow> filters option \<Rightarrow> error + application list" where
  "getApplications st filters' =
     (let conditions =
        (case filters' of
           None \<Rightarrow> []
         | Some f \<Rightarrow>
             (case f_status f of
                None \<Rightarrow> []
              | Some status \<Rightarrow> if status \<noteq> [] then [eq_text app_status status] else [])
             @ (case f_programId f of
                  None \<Rightarrow> []
                | Some programId \<Rightarrow>
                    if programId \<noteq> NaN \<and> programId \<noteq> Num 0
                    then [eq_integer app_programId programId] else [])
             @ (case f_search f of
                  None \<Rightarrow> []
                | Some search \<Rightarrow>
                    if search \<noteq> []
                    then [like_text app_applicantName (''%'' @ search @ ''%'')]
                    else []))
      in case firstRefusal (concat (map refusals conditions)) of
           Some e \<Rightarrow> Inl e
         | None \<Rightarrow>
             Inr (sort_key (\<lambda>a. descKey (app_submittedAt a))
                    (if 0 < length conditions
                     then filter (\<lambda>a. list_all (\<lambda>c. holds c a) conditions) (applications st)
                     else applications st)))"

text \<open>The query of the list request: each parameter a string, or absent.\<close>

record list_query =
  q_status :: "string option"
  q_programId :: "string option"
  q_search :: "string option"

definition applications_list ::
  "runtime \<Rightarrow> db \<Rightarrow> request \<Rightarrow> list_query
     \<Rightarrow> db \<times> (application \<times> program option) list response" where
  "applications_list rt st req query =
     (if \<not> isAuthenticated req then (st, SendStatus 401)
      else
        let filters' = \<lparr> f_status = q_status query,
              f_programId = (case q_programId query of
                               None \<Rightarrow> None
                             | Some s \<Rightarrow> if s \<noteq> [] then Some (Number rt (Some (JStr s))) else None),
              f_search = q_search query \<rparr>
        in case getApplications st (Some filters') of
             Inl e \<Rightarrow> (st, Throws e)
           | Inr apps \<Rightarrow>
               (st, Json 200 (map (\<lambda>a. (a, getProgram st (app_programId a))) apps)))"

section \<open>Reviewer detail and decision (get, decision)\<close>

text \<open>
  \<open>idParam\<close> is \<open>Number(req.params.id)\<close>, a parameter of the query for the
  application. The detail is the application with its documents, its events each with
  the user that made it, its program and the income limit for its household size.
\<close>

type_synonym application_detail =
  "application \<times> document list \<times> (activityEvent \<times> user option) list
     \<times> program option \<times> incomeLimit option"

definition applications_get ::
  "db \<Rightarrow> request \<Rightarrow> number \<Rightarrow> db \<times> application_detail response" where
  "applications_get st req idParam =
     (if \<not> isAuthenticated req then (st, SendStatus 401)
      else
        (case numberParam idParam of
           Inl e \<Rightarrow> (st, Throws e)
         | Inr i \<Rightarrow>
             (case getApplication st i of
                None \<Rightarrow> (st, SendStatus 404)
              | Some app \<Rightarrow>
                  let documents' = getDocuments st (app_id app);
                      activityEvents' = getActivityEvents st (app_id app);
                      program' = getProgram st (app_programId app);
                      eventsWithUsers =
                        map (\<lambda>ev. (ev, case ev_createdByUserId ev of
                                          None \<Rightarrow> None
                                        | Some uid \<Rightarrow> if uid \<noteq> 0 then getUser st uid else None))
                          activityEvents';
                      incomeLimitSnapshot =
                        (case app_householdSize app of
                           None \<Rightarrow> None
                         | Some householdSize \<Rightarrow>
                             if householdSize \<noteq> 0
                             then getIncomeLimitForHousehold st (app_programId app) householdSize
                             else None)
                  in (st, Json 200 (app, documents', eventsWithUsers, program', incomeLimitSnapshot)))))"

text \<open>
  The decision body \<open>{ status, note }\<close> is read from \<open>req.body\<close> without a schema:
  each is any JSON value or absent. A template literal prints a value with
  \<open>String\<close>.
\<close>

record decision_body =
  d_status :: "json option"
  d_note :: "json option"

definition template :: "runtime \<Rightarrow> json option \<Rightarrow> string" where
  "template rt v =
     (case v of
        None \<Rightarrow> ''undefined''
      | Some JNull \<Rightarrow> ''null''
      | Some (JBool b) \<Rightarrow> (if b then ''true'' else ''false'')
      | Some (JStr s) \<Rightarrow> s
      | Some j \<Rightarrow> toString rt j)"

text \<open>
  The handler: the update of the application and the insert of the event are two
  statements, so an event that is refused leaves the update in place.
\<close>

definition applications_decision ::
  "runtime \<Rightarrow> db \<Rightarrow> timestamp \<Rightarrow> timestamp \<Rightarrow> request \<Rightarrow> number \<Rightarrow> decision_body
     \<Rightarrow> db \<times> application option response" where
  "applications_decision rt st tUpdate tEvent req idParam body =
     (if \<not> isAuthenticated req then (st, SendStatus 401)
      else
        (case numberParam idParam of
           Inl e \<Rightarrow> (st, Throws e)
         | Inr i \<Rightarrow>
             (case getApplication st i of
                None \<Rightarrow> (st, SendStatus 404)
              | Some app \<Rightarrow>
                  (case req_user req of
                     None \<Rightarrow> (st, Throws TypeError)
                   | Some user \<Rightarrow>
                       (case notNull (textParam rt) (d_status body) of
                          Inl e \<Rightarrow> (st, Throws e)
                        | Inr status \<Rightarrow>
                            (case updateApplication st tUpdate (app_id app)
                                    (no_updates\<lparr> u_status := status,
                                       u_reviewedBy := Some (Some (usr_id user)) \<rparr>) of
                               Inl e \<Rightarrow> (st, Throws e)
                             | Inr (st1, _) \<Rightarrow>
                                 (case stringParam
                                         (''Status changed to '' @ template rt (d_status body)
                                            @ ''. Note: '' @ template rt (d_note body)) of
                                    Inl e \<Rightarrow> (st1, Throws e)
                                  | Inr message \<Rightarrow>
                                      (case createActivityEvent st1 tEvent
                                              \<lparr> i_applicationId = app_id app,
                                                i_type = (if d_status body = Some (JStr ''NeedsInfo'')
                                                          then ''RequestInfo'' else ''StatusChange''),
                                                i_message = message,
                                                i_createdByUserId = Some (usr_id user) \<rparr> of
                                         (st2, _) \<Rightarrow>
                                           (st2, Json 200 (getApplication st2 (app_id app)))))))))))"

section \<open>CSV export, programs and income limits (exports, create)\<close>

text \<open>\<open>String(n)\<close> of an integer column: its decimal digits, with a sign when negative.\<close>

function decimal :: "nat \<Rightarrow> string" where
  "decimal n = (if n < 10 then [char_of (48 + n)]
                else decimal (n div 10) @ [char_of (48 + n mod 10)])"
  by pat_completeness auto
termination
  by (relation "measure (\<lambda>n. n)") auto

definition String :: "int \<Rightarrow> string" where
  "String n = (if n < 0 then ''-'' @ decimal (nat (- n)) else decimal (nat n))"

fun join :: "string \<Rightarrow> string list \<Rightarrow> string" where
  "join sep [] = []"
| "join sep [x] = x"
| "join sep (x # y # ys) = x @ sep @ join sep (y # ys)"

text \<open>
  One line of the export. \<open>toFixed2 rt c\<close> is \<open>(c / 100).toFixed(2)\<close> and
  \<open>toISOString rt t\<close> is \<open>new Date(t).toISOString()\<close>. \<open>x || ''\<close> and \<open>x ? ... : ''\<close>
  give the empty string for \<open>null\<close>, \<open>0\<close> and the empty string.
\<close>

definition csvRow :: "runtime \<Rightarrow> application \<Rightarrow> string" where
  "csvRow rt a =
     join '','' [
       String (app_id a),
       [CHR 0x22] @ app_applicantName a @ [CHR 0x22],
       app_applicantEmail a,
       String (app_programId a),
       app_status a,
       (case app_systemResult a of None \<Rightarrow> [] | Some r \<Rightarrow> r),
       (case app_annualIncomeCents a of
          None \<Rightarrow> []
        | Some c \<Rightarrow> if c \<noteq> 0 then toFixed2 rt c else []),
       (case app_householdSize a of
          None \<Rightarrow> []
        | Some h \<Rightarrow> if h \<noteq> 0 then String h else []),
       (case app_submittedAt a of None \<Rightarrow> [] | Some t \<Rightarrow> toISOString rt t)]"

definition exports_applications :: "runtime \<Rightarrow> db \<Rightarrow> request \<Rightarrow> db \<times> unit response" where
  "exports_applications rt st req =
     (if \<not> isAuthenticated req then (st, SendStatus 401)
      else
        (case getApplications st None of
           Inl e \<Rightarrow> (st, Throws e)
         | Inr apps \<Rightarrow>
             let csvRows =
                   [join '','' [''ID'', ''Applicant'', ''Email'', ''Program ID'', ''Status'',
                      ''System Result'', ''Income'', ''Household Size'', ''Submitted At'']]
                   @ map (csvRow rt) apps
             in (st, Send (join [CHR 0x0A] csvRows))))"

record program_insert =
  ip_name :: string
  ip_regionLabel :: string
  ip_effectiveStart :: timestamp
  ip_effectiveEnd :: "timestamp option"

text \<open>
  The two inserts below take their ids from the sequences, which nothing else writes,
  and \<open>created_at\<close> from its default.
\<close>

definition createProgram :: "db \<Rightarrow> timestamp \<Rightarrow> program_insert \<Rightarrow> db \<times> program" where
  "createProgram st now program =
     (let newProgram = \<lparr> prog_id = programs_id_seq st,
            prog_name = ip_name program,
            prog_regionLabel = ip_regionLabel program,
            prog_effectiveStart = ip_effectiveStart program,
            prog_effectiveEnd = ip_effectiveEnd program,
            prog_createdAt = Some now \<rparr>
      in (st\<lparr>programs := programs st @ [newProgram],
              programs_id_seq := programs_id_seq st + 1\<rparr>, newProgram))"

text \<open>
  The create handlers give \<open>req.body\<close> to the insert. The bodies below hold the keys
  of the insert schemas; a \<open>notNull\<close> column that the body leaves out is NULL in the
  row, which the insert refuses after it has taken an id from the sequence.
\<close>

record program_body =
  pb_name :: "json option"
  pb_regionLabel :: "json option"
  pb_effectiveStart :: "json option"
  pb_effectiveEnd :: "json option"

definition programs_create ::
  "runtime \<Rightarrow> db \<Rightarrow> timestamp \<Rightarrow> request \<Rightarrow> program_body \<Rightarrow> db \<times> program response" where
  "programs_create rt st now req body =
     (if \<not> isAuthenticated req then (st, SendStatus 401)
      else
        let name = notNull (textParam rt) (pb_name body);
            regionLabel = notNull (textParam rt) (pb_regionLabel body);
            effectiveStart = notNull timestampParam (pb_effectiveStart body);
            effectiveEnd = nullable timestampParam (pb_effectiveEnd body)
        in case firstRefusal (refusals name @ refusals regionLabel
                   @ refusals effectiveStart @ refusals effectiveEnd) of
             Some e \<Rightarrow> (st, Throws e)
           | None \<Rightarrow>
               (case (accepted name, accepted regionLabel, accepted effectiveStart) of
                  (Some name', Some regionLabel', Some effectiveStart') \<Rightarrow>
                    (case createProgram st now
                            \<lparr> ip_name = name', ip_regionLabel = regionLabel',
                              ip_effectiveStart = effectiveStart',
                              ip_effectiveEnd = (case accepted effectiveEnd of
                                                   None \<Rightarrow> None
                                                 | Some e \<Rightarrow> e) \<rparr> of
                       (st1, program) \<Rightarrow> (st1, Json 201 program))
                | _ \<Rightarrow> (st\<lparr>programs_id_seq := programs_id_seq st + 1\<rparr>,
                        Throws NotNullViolation)))"

record incomeLimit_insert =
  il_programId :: int
  il_householdSize :: int
  il_limitCents :: int
  il_versionLabel :: string

definition createIncomeLimit :: "db \<Rightarrow> timestamp \<Rightarrow> incomeLimit_insert \<Rightarrow> db \<times> incomeLimit" where
  "createIncomeLimit st now limit =
     (let newLimit = \<lparr> lim_id = income_limits_id_seq st,
            lim_programId = il_programId limit,
            lim_householdSize = il_householdSize limit,
            lim_limitCents = il_limitCents limit,
            lim_versionLabel = il_versionLabel limit,
            lim_createdAt = Some now \<rparr>
      in (st\<lparr>incomeLimits := incomeLimits st @ [newLimit],
              income_limits_id_seq := income_limits_id_seq st + 1\<rparr>, newLimit))"

text \<open>
  \<open>{...req.body, programId: Number(req.params.id)}\<close>: the program id of the body, if
  any, is overwritten by the route parameter \<open>idParam\<close>.
\<close>

record incomeLimit_body =
  lb_householdSize :: "json option"
  lb_limitCents :: "json option"
  lb_versionLabel :: "json option"

definition incomeLimits_create ::
  "runtime \<Rightarrow> db \<Rightarrow> timestamp \<Rightarrow> request \<Rightarrow> number \<Rightarrow> incomeLimit_body
     \<Rightarrow> db \<times> incomeLimit response" where
  "incomeLimits_create rt st now req idParam body =
     (if \<not> isAuthenticated req then (st, SendStatus 401)
      else
        let programId = numberParam idParam;
            householdSize = notNull (integerParam rt) (lb_householdSize body);
            limitCents = notNull (integerParam rt) (lb_limitCents body);
            versionLabel = notNull (textParam rt) (lb_versionLabel body)
        in case firstRefusal (refusals programId @ refusals householdSize
                   @ refusals limitCents @ refusals versionLabel) of
             Some e \<Rightarrow> (st, Throws e)
           | None \<Rightarrow>
               (case (programId, accepted householdSize, accepted limitCents,
                      accepted versionLabel) of
                  (Inr programId', Some householdSize', Some limitCents', Some versionLabel') \<Rightarrow>
                    (case createIncomeLimit st now
                            \<lparr> il_programId = programId', il_householdSize = householdSize',
                              il_limitCents = limitCents', il_versionLabel = versionLabel' \<rparr> of
                       (st1, limit) \<Rightarrow> (st1, Json 201 limit))
                | _ \<Rightarrow> (st\<lparr>income_limits_id_seq := income_limits_id_seq st + 1\<rparr>,
                        Throws NotNullViolation)))"

section \<open>Example data\<close>

text \<open>
  A small database on which the theorems below are instantiated: one reviewer, one
  program with a limit for households of two and a limit row for household size zero,
  and five applications.
\<close>

definition exReviewer :: user where
  "exReviewer = \<lparr> usr_id = 1, usr_email = ''admin@example.com'', usr_passwordHash = ''h.s'',
     usr_role = ''Admin'', usr_createdAt = Some 1 \<rparr>"

definition exProgram :: program where
  "exProgram = \<lparr> prog_id = 1, prog_name = ''Example Rebate Program'',
     prog_regionLabel = ''Statewide'', prog_effectiveStart = 1, prog_effectiveEnd = None,
     prog_createdAt = Some 1 \<rparr>"

definition exLimit2 :: incomeLimit where
  "exLimit2 = \<lparr> lim_id = 2, lim_programId = 1, lim_householdSize = 2,
     lim_limitCents = 4000000, lim_versionLabel = ''2024-V1'', lim_createdAt = Some 1 \<rparr>"

definition exLimit0 :: incomeLimit where
  "exLimit0 = \<lparr> lim_id = 7, lim_programId = 1, lim_householdSize = 0,
     lim_limitCents = 3000000, lim_versionLabel = ''2024-V1'', lim_createdAt = Some 2 \<rparr>"

definition exDraft :: application where
  "exDraft = \<lparr> app_id = 1, app_programId = 1, app_applicantName = ''Ada'',
     app_applicantEmail = ''ada@example.com'', app_applicantPhone = None,
     app_applicantToken = ''t1'', app_addressLine1 = None, app_city = None,
     app_state = None, app_zip = None, app_householdSize = Some 2,
     app_annualIncomeCents = Some 3500000, app_computedLimitCents = None,
     app_systemResult = Some ''NeedsReview'', app_ruleVersion = None,
     app_status = ''Draft'', app_submittedAt = None, app_reviewedBy = None,
     app_createdAt = Some 3, app_updatedAt = Some 3 \<rparr>"

definition exZeroHousehold :: application where
  "exZeroHousehold = exDraft\<lparr> app_id := 2, app_applicantName := ''Bob'',
     app_applicantToken := ''t2'', app_householdSize := Some 0,
     app_annualIncomeCents := Some 100 \<rparr>"

definition exNoHousehold :: application where
  "exNoHousehold = exDraft\<lparr> app_id := 3, app_applicantName := ''Cy'',
     app_applicantToken := ''t3'', app_householdSize := None \<rparr>"

definition exApproved :: application where
  "exApproved = exDraft\<lparr> app_id := 4, app_programId := 2, app_applicantName := ''Di'',
     app_applicantToken := ''t4'', app_status := ''Approved'',
     app_systemResult := Some ''NotEligible'', app_computedLimitCents := Some 1,
     app_ruleVersion := Some ''old'', app_submittedAt := Some 5,
     app_reviewedBy := Some 1 \<rparr>"

definition exZeroIncome :: application where
  "exZeroIncome = exDraft\<lparr> app_id := 5, app_applicantName := ''Eve'',
     app_applicantToken := ''t5'', app_annualIncomeCents := Some 0,
     app_status := ''NeedsInfo'', app_submittedAt := Some 4 \<rparr>"

definition exDb :: db where
  "exDb = \<lparr> users = [exReviewer], programs = [exProgram],
     incomeLimits = [exLimit2, exLimit0],
     applications = [exDraft, exZeroHousehold, exNoHousehold, exApproved, exZeroIncome],
     documents = [], activityEvents = [],
     programs_id_seq = 2, income_limits_id_seq = 8, applications_id_seq = 6,
     activity_events_id_seq = 1 \<rparr>"

definition exSession :: request where
  "exSession = \<lparr> req_user = Some exReviewer \<rparr>"

definition exAnonymous :: request where
  "exAnonymous = \<lparr> req_user = None \<rparr>"


definition exRuntime :: runtime where
  "exRuntime = \<lparr>
     toNumber = (\<lambda>v. if v = JStr ''0'' then Num 0 else if v = JStr ''1'' then Num 1 else NaN),
     toString = (\<lambda>v. ''[object Object]''),
     isEmail = (\<lambda>s. CHR ''@'' \<in> set s),
     pgText = (\<lambda>v. ''{}''),
     int4in = (\<lambda>s. if s = ''3'' then Some 3 else None),
     toFixed2 = String,
     toISOString = String \<rparr>"




definition exRequestInfo :: decision_body where
  "exRequestInfo = \<lparr> d_status = Some (JStr ''NeedsInfo''),
     d_note = Some (JStr ''Please add a pay stub'') \<rparr>"

definition exBogusDecision :: decision_body where
  "exBogusDecision = \<lparr> d_status = Some (JStr ''Bogus''), d_note = Some (JStr ''n'') \<rparr>"

definition exNullStatus :: decision_body where
  "exNullStatus = \<lparr> d_status = Some JNull, d_note = Some (JStr ''n'') \<rparr>"

definition exNewProgram :: program_body where
  "exNewProgram = \<lparr> pb_name = Some (JStr ''Weatherization''),
     pb_regionLabel = Some (JStr ''County''),
     pb_effectiveStart = Some (JStr ''2024-01-01T00:00:00.000Z''), pb_effectiveEnd = None \<rparr>"

definition exNewLimit :: incomeLimit_body where
  "exNewLimit = \<lparr> lb_householdSize = Some (JNum (Num 3)),
     lb_limitCents = Some (JNum (Num 4500000)), lb_versionLabel = Some (JStr ''2024-V1'') \<rparr>"

definition exQuery :: list_query where
  "exQuery = \<lparr> q_status = Some ''Draft'', q_programId = None, q_search = None \<rparr>"

definition exStart :: start_body where
  "exStart = \<lparr> b_programId = Some (JStr ''1''), b_applicantName = Some (JStr ''Flo''),
     b_applicantEmail = Some (JStr ''flo@example.com'') \<rparr>"

definition exStartNoName :: start_body where
  "exStartNoName = exStart\<lparr> b_applicantName := Some (JStr []) \<rparr>"

definition exStartBig :: start_body where
  "exStartBig = exStart\<lparr> b_programId := Some (JNum (Num 2147483648)) \<rparr>"

definition exByStatus :: filters where
  "exByStatus = \<lparr> f_status = Some ''Draft'', f_programId = Some (Num 1), f_search = Some ''d'' \<rparr>"

definition exByProgramZero :: filters where
  "exByProgramZero = \<lparr> f_status = None, f_programId = Some (Num 0), f_search = None \<rparr>"

definition exByUnderscore :: filters where
  "exByUnderscore = \<lparr> f_status = None, f_programId = None, f_search = Some ''_'' \<rparr>"

definition exByProgramBig :: filters where
  "exByProgramBig = \<lparr> f_status = None, f_programId = Some (Num 2147483648), f_search = None \<rparr>"

section \<open>Lemmas on the storage operations\<close>

lemma find_by_key_distinct:
  "distinct (map f xs) \<Longrightarrow> x \<in> set xs \<Longrightarrow> find (\<lambda>a. f a = f x) xs = Some x"
  by (induction xs) (auto simp: image_iff)

lemma find_Some_mem: "find P xs = Some x \<Longrightarrow> x \<in> set xs \<and> P x"
  by (induction xs) (auto split: if_splits)

lemma find_None_iff_no: "find P xs = None \<longleftrightarrow> \<not> (\<exists>x \<in> set xs. P x)"
  by (induction xs) auto

lemma find_map_keyed:
  "(\<And>a. f (g a) = f a) \<Longrightarrow>
   find (\<lambda>a. f a = k) (map (\<lambda>a. if f a = k then g a else a) xs) = map_option g (find (\<lambda>a. f a = k) xs)"
  by (induction xs) auto

lemma map_key_unchanged:
  "(\<And>a. f (g a) = f a) \<Longrightarrow> map f (map (\<lambda>a. if p a then g a else a) xs) = map f xs"
  by (induction xs) auto

lemma applySet_id: "u_id u = None \<Longrightarrow> app_id (applySet u a) = app_id a"
  by (simp add: applySet_def setCol_def)

lemma applySet_token: "u_applicantToken u = None \<Longrightarrow> app_applicantToken (applySet u a) = app_applicantToken a"
  by (simp add: applySet_def setCol_def)

lemma updateApplication_keys_kept:
  assumes "uniqueKeys (applications st)" "u_id u = None" "u_applicantToken u = None"
  shows "updateApplication st now i u =
     Inr (st\<lparr>applications := map (\<lambda>a. if app_id a = i then applySet (u\<lparr>u_updatedAt := Some (Some now)\<rparr>) a else a) (applications st)\<rparr>,
          map_option (applySet (u\<lparr>u_updatedAt := Some (Some now)\<rparr>)) (find (\<lambda>a. app_id a = i) (applications st)))"
proof -
  let ?s = "u\<lparr>u_updatedAt := Some (Some now)\<rparr>"
  have 1: "\<And>a. app_id (applySet ?s a) = app_id a" using assms by (simp add: applySet_id)
  have 2: "\<And>a. app_applicantToken (applySet ?s a) = app_applicantToken a" using assms by (simp add: applySet_token)
  have "uniqueKeys (map (\<lambda>a. if app_id a = i then applySet ?s a else a) (applications st))"
    using assms(1) unfolding uniqueKeys_def
    by (simp only: map_key_unchanged[of app_id, OF 1] map_key_unchanged[of app_applicantToken, OF 2])
  then show ?thesis by (simp add: updateApplication_def Let_def)
qed

lemma getApplication_of_token:
  assumes "uniqueKeys (applications st)" "getApplicationByToken st token = Some app"
  shows "getApplication st (app_id app) = Some app"
proof -
  have "app \<in> set (applications st)"
    using assms(2) find_Some_mem unfolding getApplicationByToken_def by fastforce
  then show ?thesis
    using assms(1) by (simp add: getApplication_def uniqueKeys_def find_by_key_distinct)
qed

lemma submit_found:
  assumes "uniqueKeys (applications st)" "getApplicationByToken st token = Some app"
    and e: "calculateEligibility st app = (r, c, v)"
  shows "\<exists>st'. applications_submitByToken st tSubmit tUpdate tEvent token =
           (st', Json 200 (Some (app\<lparr> app_computedLimitCents := c, app_systemResult := Some r,
               app_ruleVersion := v, app_status := ''Submitted'',
               app_submittedAt := Some tSubmit, app_updatedAt := Some tUpdate \<rparr>)))
         \<and> getApplication st' (app_id app) =
             Some (app\<lparr> app_computedLimitCents := c, app_systemResult := Some r,
               app_ruleVersion := v, app_status := ''Submitted'',
               app_submittedAt := Some tSubmit, app_updatedAt := Some tUpdate \<rparr>)
         \<and> activityEvents st' = activityEvents st @
              [\<lparr> ev_id = activity_events_id_seq st, ev_applicationId = app_id app,
                 ev_type = ''System'',
                 ev_message = ''Application submitted. System calculation: '' @ r,
                 ev_createdByUserId = None, ev_createdAt = Some tEvent \<rparr>]"
proof -
  let ?u = "no_updates\<lparr> u_status := Some ''Submitted'',
                        u_submittedAt := Some (Some tSubmit),
                        u_systemResult := Some (Some r),
                        u_computedLimitCents := Some c,
                        u_ruleVersion := Some v \<rparr>"
  have f: "find (\<lambda>a. app_id a = app_id app) (applications st) = Some app"
    using getApplication_of_token[OF assms(1,2)] by (simp add: getApplication_def)
  have k: "u_id ?u = None" "u_applicantToken ?u = None" by (simp_all add: no_updates_def)
  have s: "applySet (?u\<lparr>u_updatedAt := Some (Some tUpdate)\<rparr>) app =
      app\<lparr> app_computedLimitCents := c, app_systemResult := Some r,
               app_ruleVersion := v, app_status := ''Submitted'',
               app_submittedAt := Some tSubmit, app_updatedAt := Some tUpdate \<rparr>"
    by (simp add: applySet_def setCol_def no_updates_def)
  have i: "\<And>a. app_id (applySet (?u\<lparr>u_updatedAt := Some (Some tUpdate)\<rparr>) a) = app_id a"
    by (simp add: applySet_def setCol_def no_updates_def)
  note upd = updateApplication_keys_kept[OF assms(1) k, of tUpdate "app_id app"]
  show ?thesis
    by (simp add: applications_submitByToken_def assms(2) e upd createActivityEvent_def Let_def
          getApplication_def find_map_keyed[of app_id, OF i] f s)
qed

lemma getIncomeLimitForHousehold_exists:
  assumes "\<exists>l \<in> set (incomeLimits st). lim_programId l = p \<and> lim_householdSize l = h"
  shows "\<exists>limit. getIncomeLimitForHousehold st p h = Some limit \<and> limit \<in> set (incomeLimits st)
           \<and> lim_programId limit = p \<and> lim_householdSize limit = h"
proof (cases "getIncomeLimitForHousehold st p h")
  case None
  then show ?thesis using assms by (auto simp: getIncomeLimitForHousehold_def find_None_iff_no)
next
  case (Some l)
  then show ?thesis using find_Some_mem[of _ "incomeLimits st" l]
    by (auto simp: getIncomeLimitForHousehold_def)
qed

lemma getIncomeLimitForHousehold_none:
  "\<not> (\<exists>l \<in> set (incomeLimits st). lim_programId l = p \<and> lim_householdSize l = h)
   \<Longrightarrow> getIncomeLimitForHousehold st p h = None"
  unfolding getIncomeLimitForHousehold_def find_None_iff_no by simp




lemma applySet_decision:
  "applySet (no_updates\<lparr> u_status := Some status, u_reviewedBy := Some (Some uid),
                 u_updatedAt := Some (Some tUpdate) \<rparr>) app =
   app\<lparr> app_status := status, app_reviewedBy := Some uid, app_updatedAt := Some tUpdate \<rparr>"
  by (simp add: applySet_def setCol_def no_updates_def)

lemma find_append_fresh:
  "\<not> (\<exists>x \<in> set xs. P x) \<Longrightarrow> P y \<Longrightarrow> find P (xs @ [y]) = Some y"
  by (induction xs) auto

lemma like_any: "like s ''%''"
  by (induction s) auto

lemma like_percent:
  "like s (CHR ''%'' # ps) \<longleftrightarrow> (\<exists>pre rest. s = pre @ rest \<and> like rest ps)"
proof (induction s)
  case Nil
  then show ?case by simp
next
  case (Cons c cs)
  have "like (c # cs) (CHR ''%'' # ps) \<longleftrightarrow> like (c # cs) ps \<or> like cs (CHR ''%'' # ps)"
    by simp
  also have "\<dots> \<longleftrightarrow> like (c # cs) ps \<or> (\<exists>pre rest. cs = pre @ rest \<and> like rest ps)"
    using Cons.IH by simp
  also have "\<dots> \<longleftrightarrow> (\<exists>pre rest. c # cs = pre @ rest \<and> like rest ps)"
    by (auto simp: Cons_eq_append_conv)
  finally show ?case .
qed

lemma like_literal:
  "set lit \<inter> {CHR ''%'', CHR ''_'', CHR 0x5C} = {} \<Longrightarrow>
   like s (lit @ ps) \<longleftrightarrow> (\<exists>rest. s = lit @ rest \<and> like rest ps)"
proof (induction lit arbitrary: s)
  case Nil
  then show ?case by simp
next
  case (Cons c cs)
  then have c: "c \<noteq> CHR ''%''" "c \<noteq> CHR ''_''" "c \<noteq> CHR 0x5C"
    and IH: "\<And>s. like s (cs @ ps) \<longleftrightarrow> (\<exists>rest. s = cs @ rest \<and> like rest ps)"
    by auto
  show ?case
  proof (cases s)
    case Nil
    then show ?thesis using c by simp
  next
    case (Cons d ds)
    then show ?thesis using c IH[of ds] by auto
  qed
qed

lemma like_contains:
  assumes "set search \<inter> {CHR ''%'', CHR ''_'', CHR 0x5C} = {}"
  shows "like name (''%'' @ search @ ''%'') \<longleftrightarrow> (\<exists>pre post. name = pre @ search @ post)"
proof -
  have "like name (''%'' @ search @ ''%'') \<longleftrightarrow>
        (\<exists>pre rest. name = pre @ rest \<and> like rest (search @ ''%''))"
    using like_percent[of name "search @ ''%''"] by simp
  also have "\<dots> \<longleftrightarrow> (\<exists>pre rest. name = pre @ rest \<and> (\<exists>post. rest = search @ post \<and> like post ''%''))"
    using like_literal[OF assms, of _ "''%''"] by simp
  also have "\<dots> \<longleftrightarrow> (\<exists>pre post. name = pre @ search @ post)"
    by (auto simp: like_any)
  finally show ?thesis .
qed

lemma descKey_le:
  "descKey x \<le> descKey y \<longleftrightarrow>
     (case x of None \<Rightarrow> True | Some t \<Rightarrow> (case y of None \<Rightarrow> False | Some u \<Rightarrow> u \<le> t))"
  by (cases x; cases y) (simp_all add: descKey_def)

lemma sorted_desc_sort_key:
  "sorted_wrt (\<lambda>a b. case g a of None \<Rightarrow> True
                      | Some t \<Rightarrow> (case g b of None \<Rightarrow> False | Some u \<Rightarrow> u \<le> t))
     (sort_key (\<lambda>a. descKey (g a)) xs)"
proof -
  have "sorted (map (\<lambda>a. descKey (g a)) (sort_key (\<lambda>a. descKey (g a)) xs))"
    by (rule sorted_sort_key)
  then show ?thesis by (simp add: sorted_map descKey_le)
qed

text \<open>
  The keys stay unique: every handler that writes applications leaves ids and tokens
  distinct, so the hypothesis \<open>uniqueKeys\<close> of the theorems below holds of every
  database the handlers reach from one where it holds (the empty one, for instance).
\<close>

lemma updateApplication_uniqueKeys:
  "updateApplication st now i updates = Inr (st', row) \<Longrightarrow> uniqueKeys (applications st')"
  by (auto simp: updateApplication_def Let_def split: if_splits)

lemma createActivityEvent_applications:
  "applications (fst (createActivityEvent st now event)) = applications st"
  by (simp add: createActivityEvent_def Let_def)

lemma uniqueKeys_submitByToken:
  "uniqueKeys (applications st) \<Longrightarrow>
   uniqueKeys (applications (fst (applications_submitByToken st tSubmit tUpdate tEvent token)))"
  using createActivityEvent_applications
  by (auto simp: applications_submitByToken_def split_beta
        split: option.splits sum.splits dest!: updateApplication_uniqueKeys)








lemma numberParam_int4: "int4 i \<Longrightarrow> numberParam (Num i) = Inr i"
  by (simp add: numberParam_def)

lemma numberParam_refused:
  "(\<forall>i. n = Num i \<longrightarrow> \<not> int4 i) \<Longrightarrow> numberParam n = Inl DataException"
  by (cases n) (simp_all add: numberParam_def)

lemma stringParam_clean: "CHR 0x00 \<notin> set s \<Longrightarrow> stringParam s = Inr s"
  by (simp add: stringParam_def)

lemma decision_found:
  assumes u: "uniqueKeys (applications st)" and r: "req_user req = Some user"
    and i: "int4 i" and g: "getApplication st i = Some app"
    and s: "d_status body = Some (JStr status)" "CHR 0x00 \<notin> set status"
    and n: "CHR 0x00 \<notin> set (template rt (d_note body))"
  shows "\<exists>st'. applications_decision rt st tUpdate tEvent req (Num i) body =
           (st', Json 200 (Some (app\<lparr> app_status := status,
                                   app_reviewedBy := Some (usr_id user),
                                   app_updatedAt := Some tUpdate \<rparr>)))
     \<and> getApplication st' i =
           Some (app\<lparr> app_status := status, app_reviewedBy := Some (usr_id user),
                      app_updatedAt := Some tUpdate \<rparr>)
     \<and> activityEvents st' = activityEvents st @
            [\<lparr> ev_id = activity_events_id_seq st, ev_applicationId = i,
               ev_type = (if status = ''NeedsInfo'' then ''RequestInfo'' else ''StatusChange''),
               ev_message = ''Status changed to '' @ status
                              @ ''. Note: '' @ template rt (d_note body),
               ev_createdByUserId = Some (usr_id user), ev_createdAt = Some tEvent \<rparr>]"
proof -
  let ?u = "no_updates\<lparr> u_status := Some status, u_reviewedBy := Some (Some (usr_id user)) \<rparr>"
  have ai: "app_id app = i"
    using g find_Some_mem[of "\<lambda>a. app_id a = i" "applications st" app]
    by (simp add: getApplication_def)
  have k: "u_id ?u = None" "u_applicantToken ?u = None" by (simp_all add: no_updates_def)
  have ki: "\<And>a. app_id (applySet (?u\<lparr>u_updatedAt := Some (Some tUpdate)\<rparr>) a) = app_id a"
    by (simp add: applySet_def setCol_def no_updates_def)
  note upd = updateApplication_keys_kept[OF u k, of tUpdate i]
  have a: "isAuthenticated req" using r by (simp add: isAuthenticated_def)
  have f: "find (\<lambda>a. app_id a = i) (applications st) = Some app"
    using g by (simp add: getApplication_def)
  have e: "notNull (textParam rt) (d_status body) = Inr (Some status)"
    using s by (simp add: notNull_def textParam_def stringParam_def)
  have t: "template rt (d_status body) = status" using s(1) by (simp add: template_def)
  have y: "(d_status body = Some (JStr ''NeedsInfo'')) = (status = ''NeedsInfo'')"
    using s(1) by auto
  show ?thesis
    using s(2) n
    by (simp add: applications_decision_def a numberParam_int4[OF i] g r e ai upd t y
          stringParam_def createActivityEvent_def Let_def getApplication_def
          find_map_keyed[of app_id, OF ki] f applySet_decision)
qed

lemma refusals_stringParam: "set (refusals (stringParam s)) \<subseteq> {DataException}"
  by (simp add: refusals_def stringParam_def)

lemma refusals_numberParam: "set (refusals (numberParam n)) \<subseteq> {DataException}"
  by (cases n) (simp_all add: refusals_def numberParam_def)

lemma firstRefusal_DataException:
  "DataException \<in> set es \<Longrightarrow> set es \<subseteq> {DataException} \<Longrightarrow> firstRefusal es = Some DataException"
  by (auto simp: firstRefusal_def)

lemma firstRefusal_none: "firstRefusal [] = None"
  by (simp add: firstRefusal_def)

lemma startApplicationSchema_accepts:
  "startApplicationSchema rt body = Some input \<longleftrightarrow>
     (\<exists>applicantName applicantEmail.
        Number rt (b_programId body) \<noteq> NaN
      \<and> b_applicantName body = Some (JStr applicantName) \<and> applicantName \<noteq> []
      \<and> b_applicantEmail body = Some (JStr applicantEmail) \<and> isEmail rt applicantEmail
      \<and> input = \<lparr> in_programId = Number rt (b_programId body),
                    in_applicantName = applicantName,
                    in_applicantEmail = applicantEmail \<rparr>)"
  by (auto simp: startApplicationSchema_def Let_def Suc_le_eq split: option.splits json.splits)

lemma createApplication_fresh:
  assumes "uniqueKeys (applications st)"
    and "ia_programId app = Num i" "int4 i"
    and "CHR 0x00 \<notin> set (ia_applicantName app)" "CHR 0x00 \<notin> set (ia_applicantEmail app)"
      "CHR 0x00 \<notin> set (ia_applicantToken app)" "CHR 0x00 \<notin> set (ia_status app)"
      "\<forall>r. ia_systemResult app = Some r \<longrightarrow> CHR 0x00 \<notin> set r"
    and "ia_applicantToken app \<notin> app_applicantToken ` set (applications st)"
    and "applications_id_seq st \<notin> app_id ` set (applications st)"
  shows "\<exists>st' newApp. createApplication st now app = (st', Inr newApp)
     \<and> applications st' = applications st @ [newApp]
     \<and> app_id newApp = applications_id_seq st
     \<and> app_programId newApp = i
     \<and> app_applicantName newApp = ia_applicantName app
     \<and> app_applicantEmail newApp = ia_applicantEmail app
     \<and> app_applicantToken newApp = ia_applicantToken app
     \<and> app_status newApp = ia_status app
     \<and> app_systemResult newApp = ia_systemResult app"
proof -
  have "(case ia_systemResult app of None \<Rightarrow> [] | Some r \<Rightarrow> refusals (stringParam r)) = []"
    using assms(8) by (cases "ia_systemResult app") (simp_all add: refusals_def stringParam_def)
  then have "firstRefusal
             (refusals (numberParam (ia_programId app))
              @ refusals (stringParam (ia_applicantName app))
              @ refusals (stringParam (ia_applicantEmail app))
              @ refusals (stringParam (ia_applicantToken app))
              @ refusals (stringParam (ia_status app))
              @ (case ia_systemResult app of
                   None \<Rightarrow> []
                 | Some r \<Rightarrow> refusals (stringParam r))) = None"
    using assms(2-7) by (simp add: refusals_def stringParam_def numberParam_def firstRefusal_def)
  then show ?thesis
    using assms(1,2,9,10) by (simp add: createApplication_def Let_def uniqueKeys_def)
qed

lemma createApplication_refused:
  assumes "\<forall>i. ia_programId app = Num i \<longrightarrow> \<not> int4 i"
  shows "createApplication st now app = (st, Inl DataException)"
proof -
  let ?es = "refusals (numberParam (ia_programId app))
              @ refusals (stringParam (ia_applicantName app))
              @ refusals (stringParam (ia_applicantEmail app))
              @ refusals (stringParam (ia_applicantToken app))
              @ refusals (stringParam (ia_status app))
              @ (case ia_systemResult app of
                   None \<Rightarrow> []
                 | Some r \<Rightarrow> refusals (stringParam r))"
  have "numberParam (ia_programId app) = Inl DataException"
    using assms by (cases "ia_programId app") (simp_all add: numberParam_def)
  then have 1: "DataException \<in> set ?es" by (simp add: refusals_def)
  have "set (case ia_systemResult app of None \<Rightarrow> [] | Some r \<Rightarrow> refusals (stringParam r))
          \<subseteq> {DataException}"
    using refusals_stringParam by (cases "ia_systemResult app") simp_all
  then have 2: "set ?es \<subseteq> {DataException}"
    using refusals_stringParam refusals_numberParam by (simp only: set_append Un_subset_iff)
  show ?thesis
    unfolding createApplication_def firstRefusal_DataException[OF 1 2] by simp
qed

lemma createApplication_frame:
  "createApplication st now app = (st', Inl e) \<Longrightarrow> applications st' = applications st"
  by (auto simp: createApplication_def Let_def split: option.splits if_splits)

lemma createApplication_uniqueKeys:
  "uniqueKeys (applications st) \<Longrightarrow> uniqueKeys (applications (fst (createApplication st now app)))"
  by (auto simp: createApplication_def Let_def split: option.splits)

lemmas ex_defs = exDb_def exDraft_def exZeroHousehold_def exNoHousehold_def exApproved_def
  exZeroIncome_def exLimit2_def exLimit0_def exProgram_def exReviewer_def

lemma ex_unique: "uniqueKeys (applications exDb)"
  by (simp add: uniqueKeys_def ex_defs)

lemma ex_getApplication_4: "getApplication exDb 4 = Some exApproved"
  by (simp add: getApplication_def ex_defs)

lemma ex_getApplication_99: "getApplication exDb 99 = None"
  by (simp add: getApplication_def ex_defs)

lemma ex_session_user: "req_user exSession = Some exReviewer"
  by (simp add: exSession_def)





lemma ex_number_1: "Number exRuntime (Some (JStr ''1'')) = Num 1"
  by (simp add: Number_def exRuntime_def)

section \<open>Eligibility on submission\<close>

text \<open>
  C1, as amended: when the token names an application whose householdSize is neither
  null nor zero and whose annualIncomeCents is not null, and the income limits hold a
  row for the application's programId and exactly that householdSize, then submission
  answers 200 with the stored application, whose systemResult is \<open>Eligible\<close> if
  annualIncomeCents is at most the limitCents of the row the lookup returns and
  \<open>NotEligible\<close> otherwise, and whose computedLimitCents and ruleVersion are that
  row's limitCents and versionLabel.
\<close>

theorem submitByToken_eligibility:
  assumes "uniqueKeys (applications st)"
    and "getApplicationByToken st token = Some app"
    and "app_householdSize app = Some householdSize" and "householdSize \<noteq> 0"
    and "app_annualIncomeCents app = Some annualIncomeCents"
    and "\<exists>l \<in> set (incomeLimits st).
           lim_programId l = app_programId app \<and> lim_householdSize l = householdSize"
  shows "\<exists>limit st' app'.
           getIncomeLimitForHousehold st (app_programId app) householdSize = Some limit
         \<and> limit \<in> set (incomeLimits st)
         \<and> lim_programId limit = app_programId app \<and> lim_householdSize limit = householdSize
         \<and> applications_submitByToken st tSubmit tUpdate tEvent token = (st', Json 200 (Some app'))
         \<and> getApplication st' (app_id app) = Some app'
         \<and> app_systemResult app' =
             Some (if annualIncomeCents \<le> lim_limitCents limit then ''Eligible'' else ''NotEligible'')
         \<and> app_computedLimitCents app' = Some (lim_limitCents limit)
         \<and> app_ruleVersion app' = Some (lim_versionLabel limit)"
proof -
  obtain limit where l: "getIncomeLimitForHousehold st (app_programId app) householdSize = Some limit"
     "limit \<in> set (incomeLimits st)" "lim_programId limit = app_programId app"
     "lim_householdSize limit = householdSize"
    using getIncomeLimitForHousehold_exists[OF assms(6)] by blast
  have e: "calculateEligibility st app =
     (if annualIncomeCents \<le> lim_limitCents limit then ''Eligible'' else ''NotEligible'',
      Some (lim_limitCents limit), Some (lim_versionLabel limit))"
    using assms(3,4,5) l(1) by (simp add: calculateEligibility_def)
  from submit_found[OF assms(1,2) e, of tSubmit tUpdate tEvent] obtain st' where
    "applications_submitByToken st tSubmit tUpdate tEvent token =
           (st', Json 200 (Some (app\<lparr> app_computedLimitCents := Some (lim_limitCents limit),
               app_systemResult := Some (if annualIncomeCents \<le> lim_limitCents limit then ''Eligible'' else ''NotEligible''),
               app_ruleVersion := Some (lim_versionLabel limit), app_status := ''Submitted'',
               app_submittedAt := Some tSubmit, app_updatedAt := Some tUpdate \<rparr>)))"
    "getApplication st' (app_id app) = Some (app\<lparr> app_computedLimitCents := Some (lim_limitCents limit),
               app_systemResult := Some (if annualIncomeCents \<le> lim_limitCents limit then ''Eligible'' else ''NotEligible''),
               app_ruleVersion := Some (lim_versionLabel limit), app_status := ''Submitted'',
               app_submittedAt := Some tSubmit, app_updatedAt := Some tUpdate \<rparr>)"
    by blast
  with l show ?thesis by simp
qed

text \<open>The theorem at the application of token \<open>t1\<close>: a household of two under the limit.\<close>

theorem submitByToken_eligibility_witness:
  "getApplicationByToken exDb ''t1'' = Some exDraft
   \<and> app_householdSize exDraft = Some 2 \<and> app_annualIncomeCents exDraft = Some 3500000
   \<and> exLimit2 \<in> set (incomeLimits exDb)
   \<and> (case snd (applications_submitByToken exDb 10 11 12 ''t1'') of
        Json code (Some a) \<Rightarrow> code = 200 \<and> app_systemResult a = Some ''Eligible''
           \<and> app_computedLimitCents a = Some 4000000 \<and> app_ruleVersion a = Some ''2024-V1''
      | _ \<Rightarrow> False)"
proof -
  have t: "getApplicationByToken exDb ''t1'' = Some exDraft"
    by (simp add: getApplicationByToken_def ex_defs)
  have h: "app_householdSize exDraft = Some 2" "(2::int) \<noteq> 0"
    "app_annualIncomeCents exDraft = Some 3500000"
    by (simp_all add: exDraft_def)
  have r: "\<exists>l \<in> set (incomeLimits exDb).
           lim_programId l = app_programId exDraft \<and> lim_householdSize l = 2"
    by (simp add: ex_defs)
  have g: "getIncomeLimitForHousehold exDb (app_programId exDraft) 2 = Some exLimit2"
    by (simp add: getIncomeLimitForHousehold_def ex_defs)
  show ?thesis
    using submitByToken_eligibility[OF ex_unique t h r, of 10 11 12] t h g
    by (auto simp: exLimit2_def exDb_def)
qed

text \<open>
  C1 as stated fails at household size zero: the application of token \<open>t2\<close> has a
  householdSize and an annualIncomeCents that are not null, a limit row for its
  program and household size exists, its income is under that limit, and submission
  records \<open>NeedsReview\<close> with no limit and no rule version.
\<close>

theorem submitByToken_zero_household_counterexample:
  "getApplicationByToken exDb ''t2'' = Some exZeroHousehold
   \<and> app_householdSize exZeroHousehold = Some 0
   \<and> app_annualIncomeCents exZeroHousehold = Some 100
   \<and> exLimit0 \<in> set (incomeLimits exDb)
   \<and> lim_programId exLimit0 = app_programId exZeroHousehold
   \<and> lim_householdSize exLimit0 = 0
   \<and> 100 \<le> lim_limitCents exLimit0
   \<and> snd (applications_submitByToken exDb 10 11 12 ''t2'') =
       Json 200 (Some (exZeroHousehold\<lparr> app_computedLimitCents := None,
         app_systemResult := Some ''NeedsReview'', app_ruleVersion := None,
         app_status := ''Submitted'', app_submittedAt := Some 10, app_updatedAt := Some 11 \<rparr>))"
proof -
  have t: "getApplicationByToken exDb ''t2'' = Some exZeroHousehold"
    by (simp add: getApplicationByToken_def ex_defs)
  have e: "calculateEligibility exDb exZeroHousehold = (''NeedsReview'', None, None)"
    by (simp add: calculateEligibility_def ex_defs)
  show ?thesis
    using submit_found[OF ex_unique t e, of 10 11 12] t
    by (auto simp: ex_defs)
qed

text \<open>
  C2: when the token names an application for which no income limit row exists for its
  programId and householdSize, or whose householdSize or annualIncomeCents is null,
  submission still answers 200: the stored application has systemResult
  \<open>NeedsReview\<close>, computedLimitCents and ruleVersion null, and status \<open>Submitted\<close>.
\<close>

theorem submitByToken_needs_review:
  assumes "uniqueKeys (applications st)"
    and "getApplicationByToken st token = Some app"
    and "app_householdSize app = None \<or> app_annualIncomeCents app = None
         \<or> (\<exists>h. app_householdSize app = Some h
               \<and> \<not> (\<exists>l \<in> set (incomeLimits st).
                      lim_programId l = app_programId app \<and> lim_householdSize l = h))"
  shows "\<exists>st' app'.
           applications_submitByToken st tSubmit tUpdate tEvent token = (st', Json 200 (Some app'))
         \<and> getApplication st' (app_id app) = Some app'
         \<and> app_systemResult app' = Some ''NeedsReview''
         \<and> app_computedLimitCents app' = None
         \<and> app_ruleVersion app' = None
         \<and> app_status app' = ''Submitted''"
proof -
  have e: "calculateEligibility st app = (''NeedsReview'', None, None)"
    using assms(3)
    by (auto simp: calculateEligibility_def getIncomeLimitForHousehold_none
          split: option.splits)
  from submit_found[OF assms(1,2) e, of tSubmit tUpdate tEvent] show ?thesis
    by auto
qed

text \<open>The theorem at the application of token \<open>t3\<close>, which has no household size.\<close>

theorem submitByToken_needs_review_witness:
  "getApplicationByToken exDb ''t3'' = Some exNoHousehold
   \<and> app_householdSize exNoHousehold = None
   \<and> snd (applications_submitByToken exDb 10 11 12 ''t3'') =
       Json 200 (getApplication (fst (applications_submitByToken exDb 10 11 12 ''t3'')) 3)
   \<and> (case snd (applications_submitByToken exDb 10 11 12 ''t3'') of
        Json code (Some a) \<Rightarrow> code = 200 \<and> app_systemResult a = Some ''NeedsReview''
           \<and> app_computedLimitCents a = None \<and> app_ruleVersion a = None
           \<and> app_status a = ''Submitted''
      | _ \<Rightarrow> False)"
proof -
  have t: "getApplicationByToken exDb ''t3'' = Some exNoHousehold"
    by (simp add: getApplicationByToken_def ex_defs)
  have h: "app_householdSize exNoHousehold = None" "app_id exNoHousehold = 3"
    by (simp_all add: exNoHousehold_def exDraft_def)
  show ?thesis
    using submitByToken_needs_review[OF ex_unique t disjI1, OF h(1), of 10 11 12] t h
    by auto
qed

section \<open>Submission has no status precondition\<close>

text \<open>
  C9: whatever the status of the application the token names, submission goes through:
  it answers 200 with the stored application, whose status is \<open>Submitted\<close>, whose
  submittedAt is the time of this submission, and whose systemResult,
  computedLimitCents and ruleVersion are those of the eligibility calculation run now.
\<close>

theorem submitByToken_any_status:
  assumes "uniqueKeys (applications st)"
    and "getApplicationByToken st token = Some app"
    and "app_status app = status"
    and "calculateEligibility st app = (result, computedLimitCents, ruleVersion)"
  shows "\<exists>st' app'.
           applications_submitByToken st tSubmit tUpdate tEvent token = (st', Json 200 (Some app'))
         \<and> getApplication st' (app_id app) = Some app'
         \<and> app_status app' = ''Submitted''
         \<and> app_submittedAt app' = Some tSubmit
         \<and> app_systemResult app' = Some result
         \<and> app_computedLimitCents app' = computedLimitCents
         \<and> app_ruleVersion app' = ruleVersion"
  using submit_found[OF assms(1,2,4), of tSubmit tUpdate tEvent] by auto

text \<open>
  The theorem at the application of token \<open>t4\<close>: it was approved, with a system result,
  a limit, a rule version and a submission time, and all five are overwritten.
\<close>

theorem submitByToken_any_status_witness:
  "getApplicationByToken exDb ''t4'' = Some exApproved
   \<and> app_status exApproved = ''Approved''
   \<and> app_systemResult exApproved = Some ''NotEligible''
   \<and> app_computedLimitCents exApproved = Some 1
   \<and> app_ruleVersion exApproved = Some ''old''
   \<and> app_submittedAt exApproved = Some 5
   \<and> calculateEligibility exDb exApproved = (''NeedsReview'', None, None)
   \<and> (case snd (applications_submitByToken exDb 10 11 12 ''t4'') of
        Json code (Some a) \<Rightarrow> code = 200 \<and> app_status a = ''Submitted''
           \<and> app_submittedAt a = Some 10 \<and> app_systemResult a = Some ''NeedsReview''
           \<and> app_computedLimitCents a = None \<and> app_ruleVersion a = None
      | _ \<Rightarrow> False)"
proof -
  have t: "getApplicationByToken exDb ''t4'' = Some exApproved"
    by (simp add: getApplicationByToken_def ex_defs)
  have s: "app_status exApproved = ''Approved''" by (simp add: exApproved_def)
  have e: "calculateEligibility exDb exApproved = (''NeedsReview'', None, None)"
    by (simp add: calculateEligibility_def getIncomeLimitForHousehold_def ex_defs)
  show ?thesis
    using submitByToken_any_status[OF ex_unique t s e, of 10 11 12] t s e
    by (auto simp: exApproved_def)
qed

section \<open>Zero household size and zero income\<close>

text \<open>
  C10: an application whose householdSize is 0 is submitted without a lookup:
  systemResult \<open>NeedsReview\<close>, no limit and no rule version, whatever its income and
  whatever limit rows exist. An application whose annualIncomeCents is 0 and whose
  householdSize is positive gets the lookup and the comparison of 0 with the limit.
\<close>

theorem submitByToken_zero_asymmetry:
  assumes "uniqueKeys (applications st)"
    and "getApplicationByToken st token = Some app"
  shows "(app_householdSize app = Some 0 \<longrightarrow>
            (\<exists>st' app'.
               applications_submitByToken st tSubmit tUpdate tEvent token = (st', Json 200 (Some app'))
             \<and> getApplication st' (app_id app) = Some app'
             \<and> app_systemResult app' = Some ''NeedsReview''
             \<and> app_computedLimitCents app' = None \<and> app_ruleVersion app' = None))
       \<and> (\<forall>h. app_annualIncomeCents app = Some 0 \<and> app_householdSize app = Some h \<and> 0 < h \<longrightarrow>
            (\<exists>st' app'.
               applications_submitByToken st tSubmit tUpdate tEvent token = (st', Json 200 (Some app'))
             \<and> getApplication st' (app_id app) = Some app'
             \<and> (case getIncomeLimitForHousehold st (app_programId app) h of
                   None \<Rightarrow> app_systemResult app' = Some ''NeedsReview''
                            \<and> app_computedLimitCents app' = None \<and> app_ruleVersion app' = None
                 | Some limit \<Rightarrow>
                     app_systemResult app' =
                       Some (if 0 \<le> lim_limitCents limit then ''Eligible'' else ''NotEligible'')
                     \<and> app_computedLimitCents app' = Some (lim_limitCents limit)
                     \<and> app_ruleVersion app' = Some (lim_versionLabel limit))))"
proof (intro conjI impI allI)
  assume z: "app_householdSize app = Some 0"
  have e: "calculateEligibility st app = (''NeedsReview'', None, None)"
    using z by (simp add: calculateEligibility_def split: option.splits)
  from submit_found[OF assms e, of tSubmit tUpdate tEvent]
  show "\<exists>st' app'.
               applications_submitByToken st tSubmit tUpdate tEvent token = (st', Json 200 (Some app'))
             \<and> getApplication st' (app_id app) = Some app'
             \<and> app_systemResult app' = Some ''NeedsReview''
             \<and> app_computedLimitCents app' = None \<and> app_ruleVersion app' = None"
    by auto
next
  fix h
  assume a: "app_annualIncomeCents app = Some 0 \<and> app_householdSize app = Some h \<and> 0 < h"
  obtain r c v where e: "calculateEligibility st app = (r, c, v)"
    by (cases "calculateEligibility st app")
  have k: "case getIncomeLimitForHousehold st (app_programId app) h of
             None \<Rightarrow> r = ''NeedsReview'' \<and> c = None \<and> v = None
           | Some limit \<Rightarrow>
               r = (if 0 \<le> lim_limitCents limit then ''Eligible'' else ''NotEligible'')
               \<and> c = Some (lim_limitCents limit) \<and> v = Some (lim_versionLabel limit)"
    using a e by (auto simp: calculateEligibility_def split: option.splits)
  from submit_found[OF assms e, of tSubmit tUpdate tEvent] k
  show "\<exists>st' app'.
               applications_submitByToken st tSubmit tUpdate tEvent token = (st', Json 200 (Some app'))
             \<and> getApplication st' (app_id app) = Some app'
             \<and> (case getIncomeLimitForHousehold st (app_programId app) h of
                   None \<Rightarrow> app_systemResult app' = Some ''NeedsReview''
                            \<and> app_computedLimitCents app' = None \<and> app_ruleVersion app' = None
                 | Some limit \<Rightarrow>
                     app_systemResult app' =
                       Some (if 0 \<le> lim_limitCents limit then ''Eligible'' else ''NotEligible'')
                     \<and> app_computedLimitCents app' = Some (lim_limitCents limit)
                     \<and> app_ruleVersion app' = Some (lim_versionLabel limit))"
    by (auto split: option.splits)
qed

text \<open>
  The theorem at token \<open>t2\<close> (household size 0, income 100, a limit row for size 0
  exists) and at token \<open>t5\<close> (household size 2, income 0).
\<close>

theorem submitByToken_zero_asymmetry_witness:
  "getApplicationByToken exDb ''t2'' = Some exZeroHousehold
   \<and> app_householdSize exZeroHousehold = Some 0
   \<and> app_annualIncomeCents exZeroHousehold = Some 100
   \<and> getIncomeLimitForHousehold exDb (app_programId exZeroHousehold) 0 = Some exLimit0
   \<and> (case snd (applications_submitByToken exDb 10 11 12 ''t2'') of
        Json code (Some a) \<Rightarrow> app_systemResult a = Some ''NeedsReview''
           \<and> app_computedLimitCents a = None \<and> app_ruleVersion a = None
      | _ \<Rightarrow> False)
   \<and> getApplicationByToken exDb ''t5'' = Some exZeroIncome
   \<and> app_householdSize exZeroIncome = Some 2
   \<and> app_annualIncomeCents exZeroIncome = Some 0
   \<and> (case snd (applications_submitByToken exDb 10 11 12 ''t5'') of
        Json code (Some a) \<Rightarrow> app_systemResult a = Some ''Eligible''
           \<and> app_computedLimitCents a = Some 4000000 \<and> app_ruleVersion a = Some ''2024-V1''
      | _ \<Rightarrow> False)"
proof -
  have t2: "getApplicationByToken exDb ''t2'' = Some exZeroHousehold"
    by (simp add: getApplicationByToken_def ex_defs)
  have t5: "getApplicationByToken exDb ''t5'' = Some exZeroIncome"
    by (simp add: getApplicationByToken_def ex_defs)
  have f2: "app_householdSize exZeroHousehold = Some 0"
    "app_annualIncomeCents exZeroHousehold = Some 100"
    "getIncomeLimitForHousehold exDb (app_programId exZeroHousehold) 0 = Some exLimit0"
    by (simp_all add: getIncomeLimitForHousehold_def ex_defs)
  have f5: "app_householdSize exZeroIncome = Some 2"
    "app_annualIncomeCents exZeroIncome = Some 0"
    "getIncomeLimitForHousehold exDb (app_programId exZeroIncome) 2 = Some exLimit2"
    by (simp_all add: getIncomeLimitForHousehold_def ex_defs)
  have a: "case snd (applications_submitByToken exDb 10 11 12 ''t2'') of
        Json code (Some a) \<Rightarrow> app_systemResult a = Some ''NeedsReview''
           \<and> app_computedLimitCents a = None \<and> app_ruleVersion a = None
      | _ \<Rightarrow> False"
    using submitByToken_zero_asymmetry[OF ex_unique t2, of 10 11 12] f2 by auto
  have b: "case snd (applications_submitByToken exDb 10 11 12 ''t5'') of
        Json code (Some a) \<Rightarrow> app_systemResult a = Some ''Eligible''
           \<and> app_computedLimitCents a = Some 4000000 \<and> app_ruleVersion a = Some ''2024-V1''
      | _ \<Rightarrow> False"
    using submitByToken_zero_asymmetry[OF ex_unique t5, of 10 11 12] f5
    by (auto simp: exLimit2_def)
  show ?thesis using t2 t5 f2 f5 a b by simp
qed

section \<open>Editing by token\<close>




section \<open>The reviewer's decision\<close>

text \<open>
  C7, as amended: when a signed-in reviewer sends a decision for the id (an integer
  of 32 bits) of an existing application, with a status that is a string and with
  status and note free of NUL characters, the answer is 200 with the stored
  application, which is the old one with status set to the status sent, reviewedBy
  set to the reviewer's id and updatedAt to the time of the update; the activity
  events grow by exactly one event, for that application and by that reviewer, of type
  \<open>RequestInfo\<close> if the status sent is \<open>NeedsInfo\<close> and \<open>StatusChange\<close> otherwise.
  When the id is an integer of 32 bits that no application has, the answer is 404 and
  the database is unchanged. When the id is no integer of 32 bits, the query for the
  application is refused, and when the status sent is null, the update is refused: the
  request fails and the database is unchanged.
\<close>

theorem decision_adjudicates:
  assumes "uniqueKeys (applications st)" and "req_user req = Some user"
  shows "(\<forall>app status.
            int4 i \<and> getApplication st i = Some app
          \<and> d_status body = Some (JStr status) \<and> CHR 0x00 \<notin> set status
          \<and> CHR 0x00 \<notin> set (template rt (d_note body)) \<longrightarrow>
            (\<exists>st' ev.
               applications_decision rt st tUpdate tEvent req (Num i) body =
                 (st', Json 200 (Some (app\<lparr> app_status := status,
                                         app_reviewedBy := Some (usr_id user),
                                         app_updatedAt := Some tUpdate \<rparr>)))
             \<and> getApplication st' i =
                 Some (app\<lparr> app_status := status, app_reviewedBy := Some (usr_id user),
                            app_updatedAt := Some tUpdate \<rparr>)
             \<and> mset (activityEvents st') = mset (activityEvents st) + {#ev#}
             \<and> ev_applicationId ev = i
             \<and> ev_type ev = (if status = ''NeedsInfo'' then ''RequestInfo'' else ''StatusChange'')
             \<and> ev_createdByUserId ev = Some (usr_id user)))
       \<and> (int4 i \<and> getApplication st i = None \<longrightarrow>
            applications_decision rt st tUpdate tEvent req (Num i) body = (st, SendStatus 404))
       \<and> (\<forall>idParam. (\<forall>j. idParam = Num j \<longrightarrow> \<not> int4 j) \<longrightarrow>
            applications_decision rt st tUpdate tEvent req idParam body =
              (st, Throws DataException))
       \<and> (\<forall>app. int4 i \<and> getApplication st i = Some app \<and> d_status body = Some JNull \<longrightarrow>
            applications_decision rt st tUpdate tEvent req (Num i) body =
              (st, Throws NotNullViolation))"
proof (intro conjI allI impI)
  fix app status
  assume a: "int4 i \<and> getApplication st i = Some app
          \<and> d_status body = Some (JStr status) \<and> CHR 0x00 \<notin> set status
          \<and> CHR 0x00 \<notin> set (template rt (d_note body))"
  then have h: "int4 i" "getApplication st i = Some app" "d_status body = Some (JStr status)"
    "CHR 0x00 \<notin> set status" "CHR 0x00 \<notin> set (template rt (d_note body))"
    by simp_all
  from decision_found[OF assms h, of tUpdate tEvent]
  show "\<exists>st' ev.
               applications_decision rt st tUpdate tEvent req (Num i) body =
                 (st', Json 200 (Some (app\<lparr> app_status := status,
                                         app_reviewedBy := Some (usr_id user),
                                         app_updatedAt := Some tUpdate \<rparr>)))
             \<and> getApplication st' i =
                 Some (app\<lparr> app_status := status, app_reviewedBy := Some (usr_id user),
                            app_updatedAt := Some tUpdate \<rparr>)
             \<and> mset (activityEvents st') = mset (activityEvents st) + {#ev#}
             \<and> ev_applicationId ev = i
             \<and> ev_type ev = (if status = ''NeedsInfo'' then ''RequestInfo'' else ''StatusChange'')
             \<and> ev_createdByUserId ev = Some (usr_id user)"
    by auto
next
  assume "int4 i \<and> getApplication st i = None"
  moreover have "isAuthenticated req" using assms(2) by (simp add: isAuthenticated_def)
  ultimately show "applications_decision rt st tUpdate tEvent req (Num i) body = (st, SendStatus 404)"
    by (simp add: applications_decision_def numberParam_int4)
next
  fix idParam
  assume "\<forall>j. idParam = Num j \<longrightarrow> \<not> int4 j"
  then have "numberParam idParam = Inl DataException" by (rule numberParam_refused)
  moreover have "isAuthenticated req" using assms(2) by (simp add: isAuthenticated_def)
  ultimately show "applications_decision rt st tUpdate tEvent req idParam body =
              (st, Throws DataException)"
    by (simp add: applications_decision_def)
next
  fix app
  assume "int4 i \<and> getApplication st i = Some app \<and> d_status body = Some JNull"
  moreover have "isAuthenticated req" using assms(2) by (simp add: isAuthenticated_def)
  ultimately show "applications_decision rt st tUpdate tEvent req (Num i) body =
              (st, Throws NotNullViolation)"
    by (simp add: applications_decision_def numberParam_int4 assms(2) notNull_def)
qed

text \<open>
  The theorem for the reviewer of the example: a request for information on
  application 4, a decision on the id 99, which no application has, a decision on an
  id that is no integer, and a decision with the status null.
\<close>

theorem decision_adjudicates_witness:
  "req_user exSession = Some exReviewer
   \<and> getApplication exDb 4 = Some exApproved
   \<and> snd (applications_decision exRuntime exDb 20 21 exSession (Num 4) exRequestInfo) =
       Json 200 (Some (exApproved\<lparr> app_status := ''NeedsInfo'', app_reviewedBy := Some 1,
                                    app_updatedAt := Some 20 \<rparr>))
   \<and> map ev_type (activityEvents
         (fst (applications_decision exRuntime exDb 20 21 exSession (Num 4) exRequestInfo)))
       = [''RequestInfo'']
   \<and> getApplication exDb 99 = None
   \<and> applications_decision exRuntime exDb 20 21 exSession (Num 99) exRequestInfo =
       (exDb, SendStatus 404)
   \<and> applications_decision exRuntime exDb 20 21 exSession NonInteger exRequestInfo =
       (exDb, Throws DataException)
   \<and> applications_decision exRuntime exDb 20 21 exSession (Num 4) exNullStatus =
       (exDb, Throws NotNullViolation)"
proof -
  note t = decision_adjudicates[OF ex_unique ex_session_user, of _ _ exRuntime 20 21]
  have s: "d_status exRequestInfo = Some (JStr ''NeedsInfo'')"
    "CHR 0x00 \<notin> set ''NeedsInfo''"
    "CHR 0x00 \<notin> set (template exRuntime (d_note exRequestInfo))"
    "d_status exNullStatus = Some JNull"
    by (simp_all add: exRequestInfo_def exNullStatus_def template_def)
  have e: "activityEvents exDb = []" "usr_id exReviewer = 1" by (simp_all add: ex_defs)
  have i: "int4 4" "int4 99" by (simp_all add: int4_def)
  have "int4 4 \<and> getApplication exDb 4 = Some exApproved
          \<and> d_status exRequestInfo = Some (JStr ''NeedsInfo'') \<and> CHR 0x00 \<notin> set ''NeedsInfo''
          \<and> CHR 0x00 \<notin> set (template exRuntime (d_note exRequestInfo))"
    using ex_getApplication_4 s i by simp
  from t[of 4 exRequestInfo, THEN conjunct1, rule_format, OF this] obtain st' ev where
    r: "applications_decision exRuntime exDb 20 21 exSession (Num 4) exRequestInfo =
          (st', Json 200 (Some (exApproved\<lparr> app_status := ''NeedsInfo'',
                                  app_reviewedBy := Some (usr_id exReviewer),
                                  app_updatedAt := Some 20 \<rparr>)))"
       "mset (activityEvents st') = mset (activityEvents exDb) + {#ev#}"
       "ev_type ev = ''RequestInfo''"
    by auto
  from r(2) have "activityEvents st' = [ev]" by (simp add: e)
  with r have a: "snd (applications_decision exRuntime exDb 20 21 exSession (Num 4) exRequestInfo) =
       Json 200 (Some (exApproved\<lparr> app_status := ''NeedsInfo'', app_reviewedBy := Some 1,
                                    app_updatedAt := Some 20 \<rparr>))
     \<and> map ev_type (activityEvents
         (fst (applications_decision exRuntime exDb 20 21 exSession (Num 4) exRequestInfo)))
       = [''RequestInfo'']"
    by (simp add: e)
  have b: "applications_decision exRuntime exDb 20 21 exSession (Num 99) exRequestInfo =
       (exDb, SendStatus 404)"
    using t[of 99 exRequestInfo] ex_getApplication_99 i by simp
  have c: "applications_decision exRuntime exDb 20 21 exSession NonInteger exRequestInfo =
       (exDb, Throws DataException)"
    using t[of 4 exRequestInfo] by simp
  have d: "applications_decision exRuntime exDb 20 21 exSession (Num 4) exNullStatus =
       (exDb, Throws NotNullViolation)"
    using t[of 4 exNullStatus] ex_getApplication_4 s i by simp
  show ?thesis using a b c d ex_getApplication_4 ex_getApplication_99 ex_session_user by simp
qed

text \<open>
  C7 as stated fails twice. No application has the id 2147483648, and the decision on
  it is not answered with 404: the query is refused and the request fails. Application
  4 exists, and the decision that sends the status null does not set its status: the
  update is refused and the request fails.
\<close>

theorem decision_refused_counterexample:
  "isAuthenticated exSession
   \<and> getApplication exDb 2147483648 = None
   \<and> applications_decision exRuntime exDb 20 21 exSession (Num 2147483648) exRequestInfo =
       (exDb, Throws DataException)
   \<and> getApplication exDb 4 = Some exApproved
   \<and> d_status exNullStatus = Some JNull
   \<and> applications_decision exRuntime exDb 20 21 exSession (Num 4) exNullStatus =
       (exDb, Throws NotNullViolation)"
proof -
  have a: "isAuthenticated exSession" by (simp add: isAuthenticated_def exSession_def)
  have g: "getApplication exDb 2147483648 = None" by (simp add: getApplication_def ex_defs)
  have n: "numberParam (Num 2147483648) = Inl DataException"
    by (simp add: numberParam_def int4_def)
  have b: "applications_decision exRuntime exDb 20 21 exSession (Num 2147483648) exRequestInfo =
       (exDb, Throws DataException)"
    by (simp add: applications_decision_def a n)
  have s: "d_status exNullStatus = Some JNull" by (simp add: exNullStatus_def)
  have i: "numberParam (Num 4) = Inr 4" by (simp add: numberParam_def int4_def)
  have c: "applications_decision exRuntime exDb 20 21 exSession (Num 4) exNullStatus =
       (exDb, Throws NotNullViolation)"
    by (simp add: applications_decision_def a i ex_getApplication_4 ex_session_user s notNull_def)
  show ?thesis using a g b ex_getApplication_4 s c by simp
qed

text \<open>
  C3 does not hold of the decision handler: the route declares the body schema
  \<open>submitDecisionSchema\<close> (status one of \<open>Approved\<close>, \<open>Denied\<close>, \<open>NeedsInfo\<close>), but
  the handler never parses the body with it, as the start handler does with its
  schema. A signed-in reviewer who sends the status \<open>Bogus\<close> for application 4 gets
  200, and the stored application has the status \<open>Bogus\<close>, which is none of the five
  application statuses.
\<close>

theorem decision_stores_unlisted_status:
  "isAuthenticated exSession
   \<and> getApplication exDb 4 = Some exApproved
   \<and> ''Bogus'' \<notin> set applicationStatuses
   \<and> snd (applications_decision exRuntime exDb 20 21 exSession (Num 4) exBogusDecision) =
       Json 200 (Some (exApproved\<lparr> app_status := ''Bogus'', app_reviewedBy := Some 1,
                                    app_updatedAt := Some 20 \<rparr>))
   \<and> getApplication
         (fst (applications_decision exRuntime exDb 20 21 exSession (Num 4) exBogusDecision)) 4 =
       Some (exApproved\<lparr> app_status := ''Bogus'', app_reviewedBy := Some 1,
                         app_updatedAt := Some 20 \<rparr>)"
proof -
  have s: "d_status exBogusDecision = Some (JStr ''Bogus'')" "CHR 0x00 \<notin> set ''Bogus''"
    "CHR 0x00 \<notin> set (template exRuntime (d_note exBogusDecision))"
    by (simp_all add: exBogusDecision_def template_def)
  have u: "usr_id exReviewer = 1" by (simp add: exReviewer_def)
  have i: "int4 4" by (simp add: int4_def)
  have a: "isAuthenticated exSession" by (simp add: isAuthenticated_def exSession_def)
  have n: "''Bogus'' \<notin> set applicationStatuses" by (simp add: applicationStatuses_def)
  from decision_found[OF ex_unique ex_session_user i ex_getApplication_4 s, of 20 21]
  show ?thesis
    unfolding u using a n ex_getApplication_4 by auto
qed

section \<open>Reviewer routes need a session\<close>

text \<open>
  C6: without an authenticated session, each of the six reviewer handlers (list
  applications, get application, decision, CSV export, create program, create income
  limit) answers 401 and returns the database as it was; the answer is the same for
  every database and every request, so nothing stored is read.
\<close>

theorem reviewer_routes_require_session:
  assumes "\<not> isAuthenticated req"
  shows "applications_list rt st req query = (st, SendStatus 401)
       \<and> applications_get st req idParam = (st, SendStatus 401)
       \<and> applications_decision rt st tUpdate tEvent req idParam body = (st, SendStatus 401)
       \<and> exports_applications rt st req = (st, SendStatus 401)
       \<and> programs_create rt st now req program = (st, SendStatus 401)
       \<and> incomeLimits_create rt st now req idParam limit = (st, SendStatus 401)"
  using assms
  by (simp add: applications_list_def applications_get_def applications_decision_def
        exports_applications_def programs_create_def incomeLimits_create_def)

text \<open>
  The theorem for a request without a user, on the example database.
\<close>

theorem reviewer_routes_require_session_witness:
  "\<not> isAuthenticated exAnonymous
   \<and> applications_list exRuntime exDb exAnonymous exQuery = (exDb, SendStatus 401)
   \<and> applications_get exDb exAnonymous (Num 1) = (exDb, SendStatus 401)
   \<and> applications_decision exRuntime exDb 20 21 exAnonymous (Num 1) exRequestInfo =
       (exDb, SendStatus 401)
   \<and> exports_applications exRuntime exDb exAnonymous = (exDb, SendStatus 401)
   \<and> programs_create exRuntime exDb 20 exAnonymous exNewProgram = (exDb, SendStatus 401)
   \<and> incomeLimits_create exRuntime exDb 20 exAnonymous (Num 1) exNewLimit =
       (exDb, SendStatus 401)"
proof -
  have a: "\<not> isAuthenticated exAnonymous" by (simp add: isAuthenticated_def exAnonymous_def)
  show ?thesis
    using a reviewer_routes_require_session[OF a, of exRuntime exDb exQuery "Num 1" 20 21
        exRequestInfo 20 exNewProgram exNewLimit]
    by simp
qed

section \<open>Starting an application\<close>

text \<open>
  C4, as amended: the start schema accepts a body exactly when its programId coerces
  to a number other than \<open>NaN\<close>, its applicantName is a non-empty string and its
  applicantEmail is a string that passes the email test. When the schema refuses the
  body, the handler throws and the database is unchanged: no application is created.
  When the schema accepts the body and the database accepts the row (the programId is
  an integer of 32 bits, name, email and token hold no NUL character, and neither the
  token drawn nor the next id of the sequence is in the table yet), the answer is 201
  with the token and the id of a new application, which is added to the table, is
  found under the token, and has status \<open>Draft\<close>, systemResult \<open>NeedsReview\<close>, the
  token drawn and the programId, name and email of the body. When the schema accepts a
  body whose programId is no integer of 32 bits, the insert is refused and the handler
  throws. Whenever the handler throws, the applications are as they were: no
  application is created.
\<close>

theorem start_creates_draft:
  "(startApplicationSchema rt body \<noteq> None \<longleftrightarrow>
      Number rt (b_programId body) \<noteq> NaN
    \<and> (\<exists>applicantName. b_applicantName body = Some (JStr applicantName) \<and> applicantName \<noteq> [])
    \<and> (\<exists>applicantEmail. b_applicantEmail body = Some (JStr applicantEmail)
          \<and> isEmail rt applicantEmail))
   \<and> (startApplicationSchema rt body = None \<longrightarrow>
        applications_start rt st token now body = (st, Throws ZodError))
   \<and> (\<forall>programId applicantName applicantEmail.
        Number rt (b_programId body) = Num programId \<and> int4 programId
      \<and> b_applicantName body = Some (JStr applicantName) \<and> applicantName \<noteq> []
      \<and> CHR 0x00 \<notin> set applicantName
      \<and> b_applicantEmail body = Some (JStr applicantEmail) \<and> isEmail rt applicantEmail
      \<and> CHR 0x00 \<notin> set applicantEmail
      \<and> CHR 0x00 \<notin> set token
      \<and> uniqueKeys (applications st)
      \<and> token \<notin> app_applicantToken ` set (applications st)
      \<and> applications_id_seq st \<notin> app_id ` set (applications st) \<longrightarrow>
        (\<exists>st' app.
           applications_start rt st token now body = (st', Json 201 (token, app_id app))
         \<and> mset (applications st') = mset (applications st) + {#app#}
         \<and> getApplicationByToken st' token = Some app
         \<and> app_status app = ''Draft''
         \<and> app_systemResult app = Some ''NeedsReview''
         \<and> app_applicantToken app = token
         \<and> app_programId app = programId
         \<and> app_applicantName app = applicantName
         \<and> app_applicantEmail app = applicantEmail))
   \<and> (startApplicationSchema rt body \<noteq> None
      \<and> (\<forall>i. Number rt (b_programId body) = Num i \<longrightarrow> \<not> int4 i) \<longrightarrow>
        applications_start rt st token now body = (st, Throws DataException))
   \<and> (\<forall>st' e. applications_start rt st token now body = (st', Throws e) \<longrightarrow>
        applications st' = applications st)"
proof (intro conjI allI impI)
  show "startApplicationSchema rt body \<noteq> None \<longleftrightarrow>
      Number rt (b_programId body) \<noteq> NaN
    \<and> (\<exists>applicantName. b_applicantName body = Some (JStr applicantName) \<and> applicantName \<noteq> [])
    \<and> (\<exists>applicantEmail. b_applicantEmail body = Some (JStr applicantEmail)
          \<and> isEmail rt applicantEmail)"
    using startApplicationSchema_accepts[of rt body] by auto
next
  assume "startApplicationSchema rt body = None"
  then show "applications_start rt st token now body = (st, Throws ZodError)"
    by (simp add: applications_start_def)
next
  fix programId applicantName applicantEmail
  assume a: "Number rt (b_programId body) = Num programId \<and> int4 programId
      \<and> b_applicantName body = Some (JStr applicantName) \<and> applicantName \<noteq> []
      \<and> CHR 0x00 \<notin> set applicantName
      \<and> b_applicantEmail body = Some (JStr applicantEmail) \<and> isEmail rt applicantEmail
      \<and> CHR 0x00 \<notin> set applicantEmail
      \<and> CHR 0x00 \<notin> set token
      \<and> uniqueKeys (applications st)
      \<and> token \<notin> app_applicantToken ` set (applications st)
      \<and> applications_id_seq st \<notin> app_id ` set (applications st)"
  let ?ins = "\<lparr> ia_programId = Num programId,
                ia_applicantName = applicantName,
                ia_applicantEmail = applicantEmail,
                ia_applicantToken = token,
                ia_status = ''Draft'',
                ia_systemResult = Some ''NeedsReview'' \<rparr>"
  have p: "startApplicationSchema rt body =
             Some \<lparr> in_programId = Num programId, in_applicantName = applicantName,
                    in_applicantEmail = applicantEmail \<rparr>"
    using a by (simp add: startApplicationSchema_accepts)
  have h: "uniqueKeys (applications st)" "ia_programId ?ins = Num programId" "int4 programId"
    "CHR 0x00 \<notin> set (ia_applicantName ?ins)" "CHR 0x00 \<notin> set (ia_applicantEmail ?ins)"
    "CHR 0x00 \<notin> set (ia_applicantToken ?ins)" "CHR 0x00 \<notin> set (ia_status ?ins)"
    "\<forall>r. ia_systemResult ?ins = Some r \<longrightarrow> CHR 0x00 \<notin> set r"
    "ia_applicantToken ?ins \<notin> app_applicantToken ` set (applications st)"
    "applications_id_seq st \<notin> app_id ` set (applications st)"
    using a by simp_all
  from createApplication_fresh[OF h, of now] obtain st' newApp where
    c: "createApplication st now ?ins = (st', Inr newApp)"
      "applications st' = applications st @ [newApp]"
      "app_programId newApp = programId" "app_applicantName newApp = applicantName"
      "app_applicantEmail newApp = applicantEmail" "app_applicantToken newApp = token"
      "app_status newApp = ''Draft''" "app_systemResult newApp = Some ''NeedsReview''"
    by auto
  have "getApplicationByToken st' token = Some newApp"
    unfolding getApplicationByToken_def c(2)
    using a c(6) by (intro find_append_fresh) (auto simp: image_iff)
  moreover have "applications_start rt st token now body = (st', Json 201 (token, app_id newApp))"
    using c(1) by (simp add: applications_start_def p)
  moreover have "mset (applications st') = mset (applications st) + {#newApp#}"
    by (simp add: c(2))
  ultimately show "\<exists>st' app.
           applications_start rt st token now body = (st', Json 201 (token, app_id app))
         \<and> mset (applications st') = mset (applications st) + {#app#}
         \<and> getApplicationByToken st' token = Some app
         \<and> app_status app = ''Draft''
         \<and> app_systemResult app = Some ''NeedsReview''
         \<and> app_applicantToken app = token
         \<and> app_programId app = programId
         \<and> app_applicantName app = applicantName
         \<and> app_applicantEmail app = applicantEmail"
    using c by blast
next
  assume a: "startApplicationSchema rt body \<noteq> None
      \<and> (\<forall>i. Number rt (b_programId body) = Num i \<longrightarrow> \<not> int4 i)"
  then obtain input where i: "startApplicationSchema rt body = Some input" by auto
  then have "in_programId input = Number rt (b_programId body)"
    by (auto simp: startApplicationSchema_accepts)
  with a have "createApplication st now
                  \<lparr> ia_programId = in_programId input,
                    ia_applicantName = in_applicantName input,
                    ia_applicantEmail = in_applicantEmail input,
                    ia_applicantToken = token,
                    ia_status = ''Draft'',
                    ia_systemResult = Some ''NeedsReview'' \<rparr> = (st, Inl DataException)"
    by (intro createApplication_refused) simp
  then show "applications_start rt st token now body = (st, Throws DataException)"
    by (simp add: applications_start_def i)
next
  fix st' e
  assume r: "applications_start rt st token now body = (st', Throws e)"
  show "applications st' = applications st"
  proof (cases "startApplicationSchema rt body")
    case None
    with r show ?thesis by (simp add: applications_start_def)
  next
    case (Some input)
    let ?c = "createApplication st now
                  \<lparr> ia_programId = in_programId input,
                    ia_applicantName = in_applicantName input,
                    ia_applicantEmail = in_applicantEmail input,
                    ia_applicantToken = token,
                    ia_status = ''Draft'',
                    ia_systemResult = Some ''NeedsReview'' \<rparr>"
    obtain s1 x where c: "?c = (s1, x)" by (cases ?c)
    with r Some obtain e' where "x = Inl e'" "s1 = st'"
      by (cases x) (auto simp: applications_start_def)
    with c show ?thesis using createApplication_frame by blast
  qed
qed

text \<open>
  The theorem on the example database, for a body with an empty name (refused by the
  schema), for a complete body (application 6 is created under the token \<open>t6\<close>) and
  for a body whose programId is 2147483648 (refused by the database).
\<close>

theorem start_creates_draft_witness:
  "startApplicationSchema exRuntime exStartNoName = None
   \<and> applications_start exRuntime exDb ''t6'' 20 exStartNoName = (exDb, Throws ZodError)
   \<and> startApplicationSchema exRuntime exStart \<noteq> None
   \<and> snd (applications_start exRuntime exDb ''t6'' 20 exStart) = Json 201 (''t6'', 6)
   \<and> (case getApplicationByToken
              (fst (applications_start exRuntime exDb ''t6'' 20 exStart)) ''t6'' of
        Some a \<Rightarrow> app_id a = 6 \<and> app_status a = ''Draft''
           \<and> app_systemResult a = Some ''NeedsReview'' \<and> app_programId a = 1
           \<and> app_applicantName a = ''Flo'' \<and> app_applicantEmail a = ''flo@example.com''
      | None \<Rightarrow> False)
   \<and> startApplicationSchema exRuntime exStartBig \<noteq> None
   \<and> applications_start exRuntime exDb ''t6'' 20 exStartBig = (exDb, Throws DataException)"
proof -
  note t = start_creates_draft[of exRuntime _ exDb "''t6''" 20]
  have n: "startApplicationSchema exRuntime exStartNoName = None"
    using t[of exStartNoName] by (simp add: exStartNoName_def exStart_def)
  have n': "applications_start exRuntime exDb ''t6'' 20 exStartNoName = (exDb, Throws ZodError)"
    using t[of exStartNoName] n by simp
  have "b_programId exStart = Some (JStr ''1'')" by (simp add: exStart_def)
  then have h1: "Number exRuntime (b_programId exStart) = Num 1"
    by (simp only: ex_number_1)
  have h2: "int4 1"
    "b_applicantName exStart = Some (JStr ''Flo'')"
    "b_applicantEmail exStart = Some (JStr ''flo@example.com'')"
    "isEmail exRuntime ''flo@example.com''"
    "''t6'' \<notin> app_applicantToken ` set (applications exDb)"
    "applications_id_seq exDb \<notin> app_id ` set (applications exDb)"
    by (simp_all add: int4_def exStart_def exRuntime_def ex_defs)
  note h = h1 h2
  have q: "applications_id_seq exDb = 6" by (simp add: exDb_def)
  have s: "startApplicationSchema exRuntime exStart \<noteq> None"
    using t[of exStart] h by simp
  have "Number exRuntime (b_programId exStart) = Num 1 \<and> int4 1
      \<and> b_applicantName exStart = Some (JStr ''Flo'') \<and> ''Flo'' \<noteq> []
      \<and> CHR 0x00 \<notin> set ''Flo''
      \<and> b_applicantEmail exStart = Some (JStr ''flo@example.com'')
      \<and> isEmail exRuntime ''flo@example.com''
      \<and> CHR 0x00 \<notin> set ''flo@example.com''
      \<and> CHR 0x00 \<notin> set ''t6''
      \<and> uniqueKeys (applications exDb)
      \<and> ''t6'' \<notin> app_applicantToken ` set (applications exDb)
      \<and> applications_id_seq exDb \<notin> app_id ` set (applications exDb)"
    using h ex_unique by simp
  from t[of exStart, THEN conjunct2, THEN conjunct2, THEN conjunct1, rule_format, OF this]
  obtain st' app where
    r: "applications_start exRuntime exDb ''t6'' 20 exStart = (st', Json 201 (''t6'', app_id app))"
       "getApplicationByToken st' ''t6'' = Some app"
       "app_status app = ''Draft''" "app_systemResult app = Some ''NeedsReview''"
       "app_programId app = 1" "app_applicantName app = ''Flo''"
       "app_applicantEmail app = ''flo@example.com''"
    by blast
  have i: "app_id app = 6"
    using r(1) h(1,3,4,5) q
    by (simp add: applications_start_def startApplicationSchema_def createApplication_def Let_def
         split: if_splits option.splits)
  have b: "Number exRuntime (b_programId exStartBig) = Num 2147483648"
    "b_applicantName exStartBig = Some (JStr ''Flo'')"
    "b_applicantEmail exStartBig = Some (JStr ''flo@example.com'')"
    by (simp_all add: exStartBig_def exStart_def Number_def)
  have sb: "startApplicationSchema exRuntime exStartBig \<noteq> None"
    using t[of exStartBig] b h(5) by simp
  have "\<forall>i. Number exRuntime (b_programId exStartBig) = Num i \<longrightarrow> \<not> int4 i"
    by (simp add: b int4_def)
  with sb have d: "applications_start exRuntime exDb ''t6'' 20 exStartBig = (exDb, Throws DataException)"
    using t[of exStartBig] by blast
  show ?thesis using n n' s r i sb d by simp
qed

text \<open>
  C4 as stated fails at a programId beyond 32 bits: the body with programId
  2147483648, a name and an email passes the schema, and no application is created:
  the insert is refused and the handler throws with the database unchanged.
\<close>

theorem start_out_of_range_counterexample:
  "b_programId exStartBig = Some (JNum (Num 2147483648))
   \<and> b_applicantName exStartBig = Some (JStr ''Flo'')
   \<and> b_applicantEmail exStartBig = Some (JStr ''flo@example.com'')
   \<and> isEmail exRuntime ''flo@example.com''
   \<and> startApplicationSchema exRuntime exStartBig =
       Some \<lparr> in_programId = Num 2147483648, in_applicantName = ''Flo'',
              in_applicantEmail = ''flo@example.com'' \<rparr>
   \<and> applications_start exRuntime exDb ''t6'' 20 exStartBig = (exDb, Throws DataException)"
proof -
  have b: "b_programId exStartBig = Some (JNum (Num 2147483648))"
    "b_applicantName exStartBig = Some (JStr ''Flo'')"
    "b_applicantEmail exStartBig = Some (JStr ''flo@example.com'')"
    "isEmail exRuntime ''flo@example.com''"
    by (simp_all add: exStartBig_def exStart_def exRuntime_def)
  have p: "startApplicationSchema exRuntime exStartBig =
       Some \<lparr> in_programId = Num 2147483648, in_applicantName = ''Flo'',
              in_applicantEmail = ''flo@example.com'' \<rparr>"
    using b by (simp add: startApplicationSchema_accepts Number_def)
  have "createApplication exDb 20
          \<lparr> ia_programId = Num 2147483648, ia_applicantName = ''Flo'',
            ia_applicantEmail = ''flo@example.com'', ia_applicantToken = ''t6'',
            ia_status = ''Draft'', ia_systemResult = Some ''NeedsReview'' \<rparr> =
        (exDb, Inl DataException)"
    by (rule createApplication_refused) (simp add: int4_def)
  then have "applications_start exRuntime exDb ''t6'' 20 exStartBig = (exDb, Throws DataException)"
    by (simp add: applications_start_def p)
  then show ?thesis using b p by simp
qed

end
